theory Spec2Isabelle
  imports Main
begin

section \<open>Untyped runtime values\<close>

text \<open>
  The decoders of \<^verbatim>\<open>src/index.ts\<close> consume values of type \<^verbatim>\<open>unknown\<close>. The model
  covers the values a parsed self-describing document can hold, together with the
  \<^verbatim>\<open>undefined\<close> sentinel: \<^verbatim>\<open>undefined\<close>, \<^verbatim>\<open>null\<close>, booleans, numbers, strings,
  arrays and plain objects. An object is the list of its own enumerable string-keyed
  properties in enumeration order, with pairwise distinct keys; its prototype is
  \<^verbatim>\<open>Object.prototype\<close>, whose members are function objects of the host, named here by
  \<open>Builtin\<close>. Numbers are the integer-valued finite ones and the three non-finite ones.
  Properties keyed by symbols and assignments to the accessor \<^verbatim>\<open>__proto__\<close> are outside
  the model.
\<close>

datatype jsnum = Fin int | NaN | PosInf | NegInf

datatype jsval =
    Undefined
  | Null
  | Bool bool
  | Num jsnum
  | Str string
  | Arr "jsval list"
  | Obj "(string \<times> jsval) list"
  | Builtin string

text \<open>The operator \<^verbatim>\<open>typeof\<close>; note that it answers \<^verbatim>\<open>'object'\<close> for \<^verbatim>\<open>null\<close> and for arrays.\<close>

fun typeof :: "jsval \<Rightarrow> string" where
  "typeof Undefined = ''undefined''"
| "typeof Null = ''object''"
| "typeof (Bool b) = ''boolean''"
| "typeof (Num n) = ''number''"
| "typeof (Str s) = ''string''"
| "typeof (Arr xs) = ''object''"
| "typeof (Obj ps) = ''object''"
| "typeof (Builtin n) = ''function''"

fun isArray :: "jsval \<Rightarrow> bool" where
  "isArray (Arr xs) = True"
| "isArray v = False"

fun isFinite :: "jsval \<Rightarrow> bool" where
  "isFinite (Num (Fin i)) = True"
| "isFinite v = False"

text \<open>
  Strict equality \<^verbatim>\<open>a === b\<close> against a primitive right-hand side (the only use in the
  source compares the input with a string, number or boolean literal): equal primitives of
  the same type, where \<^verbatim>\<open>NaN\<close> equals nothing. An array, object or function is never
  identical to the literal held by the schema.
\<close>

fun strict_eq :: "jsval \<Rightarrow> jsval \<Rightarrow> bool" where
  "strict_eq Undefined b = (b = Undefined)"
| "strict_eq Null b = (b = Null)"
| "strict_eq (Bool x) b = (b = Bool x)"
| "strict_eq (Num NaN) b = False"
| "strict_eq (Num n) b = (b = Num n)"
| "strict_eq (Str s) b = (b = Str s)"
| "strict_eq (Arr xs) b = False"
| "strict_eq (Obj ps) b = False"
| "strict_eq (Builtin n) b = False"

subsection \<open>Number and string conversions of the host\<close>

text \<open>\<^verbatim>\<open>toString\<close> of a non-negative integer, as used for array and tuple indices.\<close>

function digits :: "nat \<Rightarrow> string" where
  "digits n =
     (if n < 10 then [''0123456789'' ! n]
      else digits (n div 10) @ [''0123456789'' ! (n mod 10)])"
  by pat_completeness auto
termination
  by (relation "measure id") auto

declare digits.simps [simp del]

definition int_to_string :: "int \<Rightarrow> string" where
  "int_to_string i = (if i < 0 then ''-'' @ digits (nat (- i)) else digits (nat i))"

fun num_to_string :: "jsnum \<Rightarrow> string" where
  "num_to_string (Fin i) = int_to_string i"
| "num_to_string NaN = ''NaN''"
| "num_to_string PosInf = ''Infinity''"
| "num_to_string NegInf = ''-Infinity''"

fun join :: "string \<Rightarrow> string list \<Rightarrow> string" where
  "join sep [] = []"
| "join sep [x] = x"
| "join sep (x # y # ys) = x @ sep @ join sep (y # ys)"

subsection \<open>Own properties\<close>

text \<open>
  A property key that is a canonical array index is enumerated before every other key,
  in ascending numeric order; the other keys follow in insertion order.
\<close>

definition is_digit :: "char \<Rightarrow> bool" where
  "is_digit c = (c \<in> set ''0123456789'')"

definition digit_value :: "char \<Rightarrow> nat" where
  "digit_value c = of_char c - 48"

definition index_value :: "string \<Rightarrow> nat" where
  "index_value s = fold (\<lambda>c n. 10 * n + digit_value c) s 0"

definition is_array_index :: "string \<Rightarrow> bool" where
  "is_array_index s =
     (s \<noteq> [] \<and> list_all is_digit s \<and> (s = ''0'' \<or> hd s \<noteq> CHR ''0'')
      \<and> index_value s < 4294967295)"

text \<open>Whether the object has an own property under the key.\<close>

definition hasProp :: "(string \<times> 'a) list \<Rightarrow> string \<Rightarrow> bool" where
  "hasProp ps k = (map_of ps k \<noteq> None)"

text \<open>
  The members that every plain object inherits from \<^verbatim>\<open>Object.prototype\<close>: the function
  \<^verbatim>\<open>Object\<close> under \<^verbatim>\<open>constructor\<close>, the methods under their own names, and under
  \<^verbatim>\<open>__proto__\<close> the prototype object itself, which has no enumerable property.
\<close>

definition prototype_methods :: "string list" where
  "prototype_methods =
     [''__defineGetter__'', ''__defineSetter__'', ''hasOwnProperty'', ''__lookupGetter__'',
      ''__lookupSetter__'', ''isPrototypeOf'', ''propertyIsEnumerable'', ''toString'',
      ''valueOf'', ''toLocaleString'']"

definition object_prototype :: "string \<Rightarrow> jsval option" where
  "object_prototype k =
     (if k = ''constructor'' then Some (Builtin ''Object'')
      else if k \<in> set prototype_methods then Some (Builtin k)
      else if k = ''__proto__'' then Some (Obj [])
      else None)"

text \<open>
  \<^verbatim>\<open>obj[key]\<close> on the property list of a plain object: an own property first, then the
  member inherited from the prototype; a key found in neither reads as \<^verbatim>\<open>undefined\<close>.
\<close>

definition getProp :: "(string \<times> jsval) list \<Rightarrow> string \<Rightarrow> jsval" where
  "getProp ps k =
     (case map_of ps k of
        Some v \<Rightarrow> v
      | None \<Rightarrow> (case object_prototype k of None \<Rightarrow> Undefined | Some m \<Rightarrow> m))"

text \<open>\<^verbatim>\<open>key in obj\<close>: true for an own property and for an inherited member.\<close>

definition key_in :: "string \<Rightarrow> (string \<times> jsval) list \<Rightarrow> bool" where
  "key_in k ps = (hasProp ps k \<or> object_prototype k \<noteq> None)"

fun insert_index :: "string \<Rightarrow> 'a \<Rightarrow> (string \<times> 'a) list \<Rightarrow> (string \<times> 'a) list" where
  "insert_index k v [] = [(k, v)]"
| "insert_index k v ((k', v') # ps) =
     (if is_array_index k' \<and> index_value k' < index_value k
      then (k', v') # insert_index k v ps
      else (k, v) # (k', v') # ps)"

text \<open>
  The assignment \<^verbatim>\<open>obj[key] = value\<close>: an existing own property keeps its place, a new
  one is created at the place the enumeration order gives it (also where the prototype has
  a member of that name, which the own property then shadows).
\<close>

definition setProp :: "(string \<times> 'a) list \<Rightarrow> string \<Rightarrow> 'a \<Rightarrow> (string \<times> 'a) list" where
  "setProp ps k v =
     (if hasProp ps k then map (\<lambda>(k', v'). if k' = k then (k', v) else (k', v')) ps
      else if is_array_index k then insert_index k v ps
      else ps @ [(k, v)])"

fun indexed :: "nat \<Rightarrow> 'a list \<Rightarrow> (string \<times> 'a) list" where
  "indexed i [] = []"
| "indexed i (x # xs) = (digits i, x) # indexed (Suc i) xs"

text \<open>
  The own enumerable string-keyed properties of a value, as the spread \<^verbatim>\<open>{ ...a }\<close> and
  \<^verbatim>\<open>Object.assign\<close> read them: none for \<^verbatim>\<open>undefined\<close>, \<^verbatim>\<open>null\<close>, booleans,
  numbers and functions, the indexed characters of a string, the indexed elements of an
  array.
\<close>

fun ownProps :: "jsval \<Rightarrow> (string \<times> jsval) list" where
  "ownProps (Obj ps) = ps"
| "ownProps (Arr xs) = indexed 0 xs"
| "ownProps (Str s) = indexed 0 (map (\<lambda>c. Str [c]) s)"
| "ownProps v = []"

subsection \<open>\<^verbatim>\<open>show\<close>: \<^verbatim>\<open>JSON.stringify(data, null, 2)\<close>\<close>

definition hex_digit :: "nat \<Rightarrow> char" where
  "hex_digit n = ''0123456789abcdef'' ! n"

definition quote_char :: "char \<Rightarrow> string" where
  "quote_char c =
     (if c = CHR 0x08 then [CHR 0x5C, CHR ''b'']
      else if c = CHR 0x09 then [CHR 0x5C, CHR ''t'']
      else if c = CHR 0x0A then [CHR 0x5C, CHR ''n'']
      else if c = CHR 0x0C then [CHR 0x5C, CHR ''f'']
      else if c = CHR 0x0D then [CHR 0x5C, CHR ''r'']
      else if c = CHR 0x22 then [CHR 0x5C, CHR 0x22]
      else if c = CHR 0x5C then [CHR 0x5C, CHR 0x5C]
      else if (of_char c :: nat) < 32
        then [CHR 0x5C, CHR ''u'', CHR ''0'', CHR ''0'',
              hex_digit (of_char c div 16), hex_digit (of_char c mod 16)]
      else [c])"

definition quote :: "string \<Rightarrow> string" where
  "quote s = [CHR 0x22] @ concat (map quote_char s) @ [CHR 0x22]"

text \<open>
  The serialisation of a value at a given indentation; \<open>None\<close> stands for the result
  \<^verbatim>\<open>undefined\<close> that \<^verbatim>\<open>JSON.stringify\<close> gives for \<^verbatim>\<open>undefined\<close> and for a
  function. Inside an array such
  an element is written \<^verbatim>\<open>null\<close>, inside an object the property is left out.
  Non-finite numbers are written \<^verbatim>\<open>null\<close>.
\<close>

fun serialize :: "string \<Rightarrow> jsval \<Rightarrow> string option" where
  "serialize ind Undefined = None"
| "serialize ind (Builtin n) = None"
| "serialize ind Null = Some ''null''"
| "serialize ind (Bool b) = Some (if b then ''true'' else ''false'')"
| "serialize ind (Num n) = Some (if isFinite (Num n) then num_to_string n else ''null'')"
| "serialize ind (Str s) = Some (quote s)"
| "serialize ind (Arr xs) =
     Some (if xs = [] then ''[]''
           else ''['' @ [CHR 0x0A] @ (ind @ ''  '')
             @ join ('','' @ [CHR 0x0A] @ (ind @ ''  ''))
                 (map (\<lambda>x. case serialize (ind @ ''  '') x of
                              None \<Rightarrow> ''null'' | Some s \<Rightarrow> s) xs)
             @ [CHR 0x0A] @ ind @ '']'')"
| "serialize ind (Obj ps) =
     (let partial = concat (map (\<lambda>p. case serialize (ind @ ''  '') (snd p) of
                                    None \<Rightarrow> []
                                  | Some s \<Rightarrow> [quote (fst p) @ '': '' @ s]) ps)
      in Some (if partial = [] then ''{}''
               else ''{'' @ [CHR 0x0A] @ (ind @ ''  '')
                 @ join ('','' @ [CHR 0x0A] @ (ind @ ''  '')) partial
                 @ [CHR 0x0A] @ ind @ ''}''))"

text \<open>
  \<^verbatim>\<open>show\<close> is only used inside template literals, where an \<^verbatim>\<open>undefined\<close> result is
  rendered as the text \<^verbatim>\<open>undefined\<close>.
\<close>

definition "show" :: "jsval \<Rightarrow> string" where
  "show data = (case serialize [] data of None \<Rightarrow> ''undefined'' | Some s \<Rightarrow> s)"

text \<open>
  The text a template literal \<^verbatim>\<open>${v}\<close> gives: a string as it is, a number or boolean
  printed, an array as its elements joined by commas (with nothing for \<^verbatim>\<open>null\<close> and
  \<^verbatim>\<open>undefined\<close> elements), a plain object as \<^verbatim>\<open>[object Object]\<close>, a function of the
  host as its source text.
\<close>

fun template_string :: "jsval \<Rightarrow> string" where
  "template_string (Str s) = s"
| "template_string (Num n) = num_to_string n"
| "template_string (Bool b) = (if b then ''true'' else ''false'')"
| "template_string Null = ''null''"
| "template_string Undefined = ''undefined''"
| "template_string (Arr xs) =
     join '','' (map (\<lambda>x. if x = Null \<or> x = Undefined then [] else template_string x) xs)"
| "template_string (Obj ps) = ''[object Object]''"
| "template_string (Builtin n) = ''function '' @ n @ ''() { [native code] }''"

section \<open>Failures and the decoder contract\<close>

text \<open>
  A \<^verbatim>\<open>DecoderError\<close> carries its rendered message and its path. The constructor
  \<^verbatim>\<open>new DecoderError(message, path = [])\<close> stores the path and then rewrites the message
  once, according to the number of path segments.
\<close>

record DecoderError =
  message :: string
  path :: "string list"

definition new_DecoderError :: "string \<Rightarrow> string list \<Rightarrow> DecoderError" where
  "new_DecoderError msg pth =
     (if length pth = 1 then \<lparr>message = hd pth @ '': '' @ msg, path = pth\<rparr>
      else if length pth > 1 then \<lparr>message = hd pth @ ''.'' @ msg, path = pth\<rparr>
      else \<lparr>message = msg, path = pth\<rparr>)"

text \<open>
  What a function of the source can throw: a \<^verbatim>\<open>DecoderError\<close>, or any other value
  (a \<^verbatim>\<open>TypeError\<close> of the host, an error raised by a transformer). A function that may
  throw returns \<open>Inl\<close> of what it threw.
\<close>

datatype thrown = Thrown_DecoderError DecoderError | Thrown_Other string

text \<open>
  The interface \<^verbatim>\<open>Decoder<D>\<close> has the three members \<^verbatim>\<open>decode\<close>, \<^verbatim>\<open>is\<close> and
  \<^verbatim>\<open>andThen\<close>; the last one returns a decoder again, for every transformer. The member
  \<^verbatim>\<open>is\<close> is called \<open>is_data\<close> here.
\<close>

codatatype Decoder = Decoder
  (decode: "jsval \<Rightarrow> DecoderError + jsval")
  (is_data: "jsval \<Rightarrow> bool")
  (andThen: "(jsval \<Rightarrow> thrown + jsval) \<Rightarrow> Decoder")

text \<open>
  \<^verbatim>\<open>createDecoder\<close> builds the three members from the throwing function
  \<^verbatim>\<open>forceDecode\<close>: \<^verbatim>\<open>decode\<close> catches everything and keeps only a \<^verbatim>\<open>DecoderError\<close>,
  \<^verbatim>\<open>is\<close> catches everything, \<^verbatim>\<open>andThen\<close> composes the raw \<^verbatim>\<open>forceDecode\<close> with the
  transformer.
\<close>

primcorec createDecoder :: "(jsval \<Rightarrow> thrown + jsval) \<Rightarrow> Decoder" where
  "createDecoder forceDecode = Decoder
     (\<lambda>data. case forceDecode data of
        Inr v \<Rightarrow> Inr v
      | Inl e \<Rightarrow> Inl (case e of
                       Thrown_DecoderError d \<Rightarrow> d
                     | Thrown_Other x \<Rightarrow> new_DecoderError ''Invalid data'' []))
     (\<lambda>data. case forceDecode data of Inr v \<Rightarrow> True | Inl e \<Rightarrow> False)
     (\<lambda>transformer. createDecoder
        (\<lambda>data. case forceDecode data of Inl e \<Rightarrow> Inl e | Inr v \<Rightarrow> transformer v))"

text \<open>The helper \<^verbatim>\<open>forceDecode(decoder, data)\<close>: unwrap a success, throw the failure.\<close>

definition forceDecode :: "Decoder \<Rightarrow> jsval \<Rightarrow> thrown + jsval" where
  "forceDecode decoder data =
     (case decode decoder data of
        Inr r \<Rightarrow> Inr r
      | Inl l \<Rightarrow> Inl (Thrown_DecoderError l))"

text \<open>
  \<^verbatim>\<open>forceDecodeWithPath\<close>: a caught \<^verbatim>\<open>DecoderError\<close> is replaced by a new one, built from
  the rendered message of the old one and the path extended at the front; anything else is
  thrown on.
\<close>

definition forceDecodeWithPath :: "Decoder \<Rightarrow> jsval \<Rightarrow> string \<Rightarrow> thrown + jsval" where
  "forceDecodeWithPath decoder data pathPart =
     (case forceDecode decoder data of
        Inr v \<Rightarrow> Inr v
      | Inl e \<Rightarrow> (case e of
          Thrown_DecoderError d \<Rightarrow>
            Inl (Thrown_DecoderError (new_DecoderError (message d) (pathPart # path d)))
        | Thrown_Other x \<Rightarrow> Inl (Thrown_Other x)))"

text \<open>\<^verbatim>\<open>checkDefined\<close> throws when \<^verbatim>\<open>data == null\<close>, that is for \<^verbatim>\<open>null\<close> and \<^verbatim>\<open>undefined\<close>.\<close>

definition checkDefined :: "jsval \<Rightarrow> thrown + bool" where
  "checkDefined data =
     (if data = Null \<or> data = Undefined
      then Inl (Thrown_DecoderError (new_DecoderError ''This value is not there'' []))
      else Inr False)"

section \<open>Primitive decoders\<close>

definition succeed :: "jsval \<Rightarrow> Decoder" where
  "succeed v = createDecoder (\<lambda>data. Inr v)"

definition never :: Decoder where
  "never = createDecoder (\<lambda>data.
     Inl (Thrown_DecoderError (new_DecoderError ''This field must never be present'' [])))"

definition primitiveDecoder :: "string \<Rightarrow> (jsval \<Rightarrow> bool) \<Rightarrow> Decoder" where
  "primitiveDecoder dataType condition = createDecoder (\<lambda>data.
     case checkDefined data of
       Inl e \<Rightarrow> Inl e
     | Inr u \<Rightarrow>
         if \<not> condition data
         then Inl (Thrown_DecoderError
                (new_DecoderError (''This is not '' @ dataType @ '': '' @ show data) []))
         else Inr data)"

definition unknown :: Decoder where
  "unknown = createDecoder (\<lambda>data. Inr data)"

definition null_decoder :: Decoder where
  "null_decoder = createDecoder (\<lambda>data.
     if data = Null then Inr data
     else Inl (Thrown_DecoderError (new_DecoderError ''Provided value is not null.'' [])))"

definition string :: Decoder where
  "string = primitiveDecoder ''a string'' (\<lambda>d. typeof d = ''string'')"

definition number :: Decoder where
  "number = primitiveDecoder ''a number'' (\<lambda>d. typeof d = ''number'' \<and> isFinite d)"

definition boolean :: Decoder where
  "boolean = primitiveDecoder ''a boolean'' (\<lambda>d. typeof d = ''boolean'')"

definition literal :: "jsval \<Rightarrow> Decoder" where
  "literal lit = createDecoder (\<lambda>data.
     case checkDefined data of
       Inl e \<Rightarrow> Inl e
     | Inr u \<Rightarrow>
         if \<not> strict_eq data lit
         then Inl (Thrown_DecoderError (new_DecoderError
                (''Data does not match the literal. Expected: '' @ [CHR 0x27]
                  @ template_string lit @ [CHR 0x27] @ '', actual value: '' @ [CHR 0x27]
                  @ show data @ [CHR 0x27]) []))
         else Inr data)"

section \<open>Alternation\<close>

text \<open>
  The loop of \<^verbatim>\<open>oneOf\<close> over the decoders, with the array \<^verbatim>\<open>errors\<close> of the messages
  collected so far. Next to the outcome it returns the positions of the decoders whose
  \<^verbatim>\<open>decode\<close> it has called, in the order of the calls; \<open>i\<close> is the position of the head.
\<close>

fun oneOf_loop ::
  "Decoder list \<Rightarrow> jsval \<Rightarrow> nat \<Rightarrow> string list \<Rightarrow> nat list \<times> (thrown + jsval)" where
  "oneOf_loop [] data i errors =
     ([], Inl (Thrown_DecoderError (new_DecoderError
        (''None of the decoders worked:'' @ [CHR 0x0A] @ show (Arr (map Str errors))) [])))"
| "oneOf_loop (decoder # rest) data i errors =
     (case decode decoder data of
        Inr r \<Rightarrow> ([i], Inr r)
      | Inl l \<Rightarrow>
          (case oneOf_loop rest data (Suc i) (errors @ [message l]) of
             (calls, outcome) \<Rightarrow> (i # calls, outcome)))"

definition oneOf_calls :: "Decoder list \<Rightarrow> jsval \<Rightarrow> nat list" where
  "oneOf_calls decoders data = fst (oneOf_loop decoders data 0 [])"

definition oneOf :: "Decoder list \<Rightarrow> Decoder" where
  "oneOf decoders = createDecoder (\<lambda>data. snd (oneOf_loop decoders data 0 []))"

definition literalUnion :: "jsval list \<Rightarrow> Decoder" where
  "literalUnion lits = oneOf (map literal lits)"

text \<open>
  The two option markers of the host library and \<^verbatim>\<open>fromNullable\<close>, which tests
  \<^verbatim>\<open>a == null\<close>.
\<close>

definition none :: jsval where
  "none = Obj [(''_tag'', Str ''None'')]"

definition some :: "jsval \<Rightarrow> jsval" where
  "some a = Obj [(''_tag'', Str ''Some''), (''value'', a)]"

definition fromNullable :: "jsval \<Rightarrow> jsval" where
  "fromNullable a = (if a = Null \<or> a = Undefined then none else some a)"

definition nullable :: "Decoder \<Rightarrow> Decoder" where
  "nullable decoder = andThen (oneOf [decoder, null_decoder]) (\<lambda>v. Inr (fromNullable v))"

text \<open>
  \<^verbatim>\<open>regex\<close> is \<^verbatim>\<open>string.andThen\<close> of a test; the pattern is given by its
  \<^verbatim>\<open>test\<close> function and its printed form.
\<close>

definition regex :: "(string \<Rightarrow> bool) \<Rightarrow> string \<Rightarrow> Decoder" where
  "regex test printed = andThen string (\<lambda>data.
     if \<not> test (template_string data)
     then Inl (Thrown_DecoderError (new_DecoderError
            (''Data '' @ [CHR 0x27] @ template_string data @ [CHR 0x27]
              @ '' does not satisfy the regex '' @ [CHR 0x27] @ printed @ [CHR 0x27]) []))
     else Inr data)"

section \<open>Intersection\<close>

text \<open>
  \<^verbatim>\<open>Object.entries\<close> throws a \<^verbatim>\<open>TypeError\<close> on \<^verbatim>\<open>null\<close> and \<^verbatim>\<open>undefined\<close> and
  otherwise lists the own enumerable string-keyed properties.
\<close>

definition entries :: "jsval \<Rightarrow> thrown + (string \<times> jsval) list" where
  "entries v =
     (if v = Null \<or> v = Undefined
      then Inl (Thrown_Other ''TypeError: Cannot convert undefined or null to object'')
      else Inr (ownProps v))"

text \<open>
  A bound on the nesting of object-typed values, used only to show that \<^verbatim>\<open>deepMerge\<close>
  terminates.
\<close>

fun object_weight :: "jsval \<Rightarrow> nat" where
  "object_weight Null = 1"
| "object_weight (Arr xs) = Suc (sum_list (map object_weight xs))"
| "object_weight (Obj ps) = Suc (sum_list (map (\<lambda>p. object_weight (snd p)) ps))"
| "object_weight v = 0"

definition entries_weight :: "(string \<times> jsval) list \<Rightarrow> nat" where
  "entries_weight es = sum_list (map (\<lambda>p. object_weight (snd p)) es)"

lemma entries_weight_Cons:
  "entries_weight ((k, v) # es) = object_weight v + entries_weight es"
  by (simp add: entries_weight_def)

lemma entries_weight_indexed:
  "entries_weight (indexed i xs) = sum_list (map object_weight xs)"
  by (induction xs arbitrary: i) (simp_all add: entries_weight_def)

lemma entries_weight_ownProps: "entries_weight (ownProps b) < max (object_weight b) 1"
proof (cases b)
  case (Str s)
  have "sum_list (map object_weight (map (\<lambda>c. Str [c]) s)) = 0"
    by (induction s) simp_all
  with Str show ?thesis
    by (simp add: entries_weight_indexed)
next
  case (Arr xs)
  then show ?thesis by (simp add: entries_weight_indexed)
qed (simp_all add: entries_weight_def)

lemma object_weight_pos: "typeof v = ''object'' \<Longrightarrow> 0 < object_weight v"
  by (cases v) simp_all

text \<open>
  \<^verbatim>\<open>deepMerge(a, b)\<close>: \<^verbatim>\<open>result\<close> starts as the spread of \<^verbatim>\<open>a\<close>; the loop runs over
  \<^verbatim>\<open>Object.entries(b)\<close>. Where \<^verbatim>\<open>key in result\<close> holds and \<^verbatim>\<open>typeof\<close> gives
  \<^verbatim>\<open>'object'\<close> for both values, the two are merged recursively; in every other case the
  value of \<^verbatim>\<open>b\<close> is assigned.
\<close>

function deepMerge :: "jsval \<Rightarrow> jsval \<Rightarrow> thrown + jsval"
  and deepMerge_loop :: "(string \<times> jsval) list \<Rightarrow> (string \<times> jsval) list \<Rightarrow> thrown + jsval"
  where
  "deepMerge a b =
     (case entries b of
        Inl e \<Rightarrow> Inl e
      | Inr es \<Rightarrow> deepMerge_loop (ownProps a) es)"
| "deepMerge_loop result [] = Inr (Obj result)"
| "deepMerge_loop result ((key, val) # rest) =
     (if key_in key result then
        (if typeof val = ''object'' \<and> typeof (getProp result key) = ''object''
         then (case deepMerge (getProp result key) val of
                 Inl e \<Rightarrow> Inl e
               | Inr merged \<Rightarrow> deepMerge_loop (setProp result key merged) rest)
         else deepMerge_loop (setProp result key val) rest)
      else deepMerge_loop (setProp result key val) rest)"
  by pat_completeness auto
termination
proof (relation "measures
    [\<lambda>x. case x of Inl (a, b) \<Rightarrow> 2 * max (object_weight b) 1
                  | Inr (r, es) \<Rightarrow> 2 * entries_weight es + 1,
     \<lambda>x. case x of Inl (a, b) \<Rightarrow> 0 | Inr (r, es) \<Rightarrow> length es]", goal_cases)
  case 1
  show ?case by simp
next
  case (2 a b es)
  then have "es = ownProps b"
    by (simp add: entries_def split: if_splits)
  with entries_weight_ownProps [of b] show ?case
    by simp
next
  case (3 result key val rest)
  then show ?case
    using object_weight_pos [of val] by (simp add: entries_weight_Cons)
next
  case (4 result key val rest merged)
  then show ?case by (auto simp add: entries_weight_Cons)
next
  case (5 result key val rest)
  then show ?case by (auto simp add: entries_weight_Cons)
next
  case (6 result key val rest)
  then show ?case by (auto simp add: entries_weight_Cons)
qed

text \<open>
  \<^verbatim>\<open>allOf\<close> reduces the decoders from the left, starting from the empty object; the
  argument \<^verbatim>\<open>forceDecode(decoder, data)\<close> is evaluated before \<^verbatim>\<open>deepMerge\<close> is called.
\<close>

fun allOf_reduce :: "Decoder list \<Rightarrow> jsval \<Rightarrow> jsval \<Rightarrow> thrown + jsval" where
  "allOf_reduce [] data acc = Inr acc"
| "allOf_reduce (decoder # rest) data acc =
     (case forceDecode decoder data of
        Inl e \<Rightarrow> Inl e
      | Inr v \<Rightarrow>
          (case deepMerge acc v of
             Inl e \<Rightarrow> Inl e
           | Inr acc' \<Rightarrow> allOf_reduce rest data acc'))"

definition allOf :: "Decoder list \<Rightarrow> Decoder" where
  "allOf decoders = createDecoder (\<lambda>data. allOf_reduce decoders data (Obj []))"

section \<open>Arrays and tuples\<close>

definition checkArrayType :: "jsval \<Rightarrow> thrown + jsval list" where
  "checkArrayType data =
     (case data of
        Arr xs \<Rightarrow> Inr xs
      | other \<Rightarrow> Inl (Thrown_DecoderError
          (new_DecoderError (''This is not an array: '' @ show data) [])))"

text \<open>
  \<^verbatim>\<open>data.map((x, i) => forceDecodeWithPath(decoder, x, i.toString()))\<close>: the first element
  that throws ends the traversal.
\<close>

fun array_map :: "Decoder \<Rightarrow> jsval list \<Rightarrow> nat \<Rightarrow> thrown + jsval list" where
  "array_map decoder [] i = Inr []"
| "array_map decoder (x # xs) i =
     (case forceDecodeWithPath decoder x (digits i) of
        Inl e \<Rightarrow> Inl e
      | Inr v \<Rightarrow>
          (case array_map decoder xs (Suc i) of
             Inl e \<Rightarrow> Inl e
           | Inr vs \<Rightarrow> Inr (v # vs)))"

definition array :: "Decoder \<Rightarrow> Decoder" where
  "array decoder = createDecoder (\<lambda>data.
     case checkDefined data of
       Inl e \<Rightarrow> Inl e
     | Inr u \<Rightarrow>
         (case checkArrayType data of
            Inl e \<Rightarrow> Inl e
          | Inr xs \<Rightarrow>
              (case array_map decoder xs 0 of
                 Inl e \<Rightarrow> Inl e
               | Inr vs \<Rightarrow> Inr (Arr vs))))"

text \<open>\<^verbatim>\<open>data[index]\<close> on an array: \<^verbatim>\<open>undefined\<close> beyond the last element.\<close>

definition elementAt :: "jsval list \<Rightarrow> nat \<Rightarrow> jsval" where
  "elementAt xs i = (if i < length xs then xs ! i else Undefined)"

fun tuple_map :: "Decoder list \<Rightarrow> jsval list \<Rightarrow> nat \<Rightarrow> thrown + jsval list" where
  "tuple_map [] data index = Inr []"
| "tuple_map (decoder # rest) data index =
     (case forceDecodeWithPath decoder (elementAt data index) (digits index) of
        Inl e \<Rightarrow> Inl e
      | Inr v \<Rightarrow>
          (case tuple_map rest data (Suc index) of
             Inl e \<Rightarrow> Inl e
           | Inr vs \<Rightarrow> Inr (v # vs)))"

definition tuple :: "Decoder list \<Rightarrow> Decoder" where
  "tuple decoders = createDecoder (\<lambda>data.
     case checkDefined data of
       Inl e \<Rightarrow> Inl e
     | Inr u \<Rightarrow>
         (case checkArrayType data of
            Inl e \<Rightarrow> Inl e
          | Inr xs \<Rightarrow>
              if length decoders > length xs
              then Inl (Thrown_DecoderError (new_DecoderError
                     (''The tuple is not long enough. '' @ digits (length decoders)
                       @ '' > '' @ digits (length xs)) []))
              else (case tuple_map decoders xs 0 of
                      Inl e \<Rightarrow> Inl e
                    | Inr vs \<Rightarrow> Inr (Arr vs))))"

section \<open>Objects\<close>

text \<open>
  \<^verbatim>\<open>checkDictType\<close> asserts that the value is a non-null, non-array object and hands its
  properties on. Its second test, for keys that are not strings, cannot fire on the values
  of this model.
\<close>

definition checkDictType :: "jsval \<Rightarrow> thrown + (string \<times> jsval) list" where
  "checkDictType data =
     (if typeof data \<noteq> ''object'' \<or> data = Null \<or> isArray data
      then Inl (Thrown_DecoderError
             (new_DecoderError (''This is not an object: '' @ show data) []))
      else Inr (ownProps data))"

type_synonym DecoderRecord = "(string \<times> Decoder) list"

fun required_loop ::
  "DecoderRecord \<Rightarrow> (string \<times> jsval) list \<Rightarrow> (string \<times> jsval) list
     \<Rightarrow> thrown + (string \<times> jsval) list" where
  "required_loop [] data parsed = Inr parsed"
| "required_loop ((key, decoder) # rest) data parsed =
     (if getProp data key = Undefined
      then Inl (Thrown_DecoderError (new_DecoderError
             (''Object missing required property '' @ [CHR 0x27] @ key @ [CHR 0x27]) []))
      else (case forceDecodeWithPath decoder (getProp data key) key of
              Inl e \<Rightarrow> Inl e
            | Inr v \<Rightarrow> required_loop rest data (setProp parsed key v)))"

definition required :: "DecoderRecord \<Rightarrow> Decoder" where
  "required struct = createDecoder (\<lambda>data.
     case checkDictType data of
       Inl e \<Rightarrow> Inl e
     | Inr ps \<Rightarrow>
         (case required_loop struct ps [] of
            Inl e \<Rightarrow> Inl e
          | Inr parsed \<Rightarrow> Inr (Obj parsed)))"

fun partial_loop ::
  "DecoderRecord \<Rightarrow> (string \<times> jsval) list \<Rightarrow> (string \<times> jsval) list
     \<Rightarrow> thrown + (string \<times> jsval) list" where
  "partial_loop [] data parsed = Inr parsed"
| "partial_loop ((key, decoder) # rest) data parsed =
     (if getProp data key = Undefined
      then partial_loop rest data (setProp parsed key none)
      else (case forceDecodeWithPath decoder (getProp data key) key of
              Inl e \<Rightarrow> Inl e
            | Inr v \<Rightarrow> partial_loop rest data (setProp parsed key (some v))))"

definition partial :: "DecoderRecord \<Rightarrow> Decoder" where
  "partial struct = createDecoder (\<lambda>data.
     case checkDictType data of
       Inl e \<Rightarrow> Inl e
     | Inr ps \<Rightarrow>
         (case partial_loop struct ps [] of
            Inl e \<Rightarrow> Inl e
          | Inr parsed \<Rightarrow> Inr (Obj parsed)))"

text \<open>\<^verbatim>\<open>Object.assign(target, source)\<close> assigns the own properties of the source in order.\<close>

definition object_assign :: "(string \<times> jsval) list \<Rightarrow> jsval \<Rightarrow> (string \<times> jsval) list" where
  "object_assign target source = fold (\<lambda>p r. setProp r (fst p) (snd p)) (ownProps source) target"

text \<open>The argument \<^verbatim>\<open>{ required?, optional? }\<close> of \<^verbatim>\<open>structuredObject\<close>.\<close>

record Struct =
  struct_required :: "DecoderRecord option"
  struct_optional :: "DecoderRecord option"

definition structuredObject :: "Struct \<Rightarrow> Decoder" where
  "structuredObject struct = createDecoder (\<lambda>data.
     case checkDefined data of
       Inl e \<Rightarrow> Inl e
     | Inr u \<Rightarrow>
         (case (case struct_required struct of
                  None \<Rightarrow> Inr []
                | Some req \<Rightarrow>
                    (case forceDecode (required req) data of
                       Inl e \<Rightarrow> Inl e
                     | Inr r \<Rightarrow> Inr (object_assign [] r))) of
            Inl e \<Rightarrow> Inl e
          | Inr result \<Rightarrow>
              (case struct_optional struct of
                 None \<Rightarrow> Inr (Obj result)
               | Some opt \<Rightarrow>
                   (case forceDecode (partial opt) data of
                      Inl e \<Rightarrow> Inl e
                    | Inr r \<Rightarrow> Inr (Obj (object_assign result r))))))"

text \<open>
  A field of the argument of \<^verbatim>\<open>object\<close> is a decoder, or a decoder wrapped by
  \<^verbatim>\<open>optional\<close>; \<^verbatim>\<open>object\<close> sorts the fields into the two buckets, the optional
  one first in the pair and the required one second.
\<close>

datatype ObjectField = Optional Decoder | Plain Decoder

definition optional :: "Decoder \<Rightarrow> ObjectField" where
  "optional decoder = Optional decoder"

definition object_buckets :: "(string \<times> ObjectField) list \<Rightarrow> DecoderRecord \<times> DecoderRecord" where
  "object_buckets struct =
     fold (\<lambda>p acc. case snd p of
             Optional d \<Rightarrow> (setProp (fst acc) (fst p) d, snd acc)
           | Plain d \<Rightarrow> (fst acc, setProp (snd acc) (fst p) d))
       struct ([], [])"

definition object :: "(string \<times> ObjectField) list \<Rightarrow> Decoder" where
  "object struct =
     andThen (structuredObject
        \<lparr>struct_required = Some (snd (object_buckets struct)),
         struct_optional = Some (fst (object_buckets struct))\<rparr>) (\<lambda>x. Inr x)"

text \<open>\<^verbatim>\<open>recursive\<close> calls the supplier at every decode.\<close>

definition recursive :: "(unit \<Rightarrow> Decoder) \<Rightarrow> Decoder" where
  "recursive decoder = createDecoder (\<lambda>data. forceDecode (decoder ()) data)"

text \<open>
  The category decoder of the test suite refers to itself through \<^verbatim>\<open>recursive\<close>:
  \<^verbatim>\<open>object({ name: string, subcategories: array(recursive(() => categoryDecoder)) })\<close>.
  The self-reference is unrolled by a counter: the supplier inside the decoder at
  \<open>Suc n\<close> resolves to the decoder at \<open>n\<close>, and the decoder at \<open>0\<close> stands for a reference
  that was not resolved.
\<close>

fun categoryDecoder :: "nat \<Rightarrow> Decoder" where
  "categoryDecoder 0 = createDecoder (\<lambda>data. Inl (Thrown_Other ''unresolved''))"
| "categoryDecoder (Suc n) =
     object [(''name'', Plain string),
             (''subcategories'', Plain (array (recursive (\<lambda>u. categoryDecoder n))))]"

section \<open>Example schemas and inputs\<close>

text \<open>
  The input that the specification gives for the category decoder, and the same input with
  the \<^verbatim>\<open>name\<close> fields of the two outer levels filled in, as the inputs of the test
  suite have them.
\<close>

definition spec_categories :: jsval where
  "spec_categories =
     Obj [(''subcategories'', Arr [Obj [(''subcategories'', Arr [Obj [(''name'', Num (Fin 1))]])]])]"

definition named_categories :: jsval where
  "named_categories =
     Obj [(''name'', Str ''Electronics''),
          (''subcategories'', Arr [
             Obj [(''name'', Str ''Computers''),
                  (''subcategories'', Arr [Obj [(''name'', Num (Fin 1))]])]])]"

text \<open>A schema with one required and one optional field.\<close>

definition example_struct :: Struct where
  "example_struct =
     \<lparr>struct_required = Some [(''a'', number)], struct_optional = Some [(''b'', number)]\<rparr>"

section \<open>The decoder contract\<close>

text \<open>
  Claim C1. For every decoder built by \<^verbatim>\<open>createDecoder\<close> and every input, \<^verbatim>\<open>decode\<close>
  returns a result and never throws: a success of \<^verbatim>\<open>forceDecode\<close> is returned as the
  success side, a thrown \<^verbatim>\<open>DecoderError\<close> is returned unchanged as the error side, and
  anything else that was thrown is replaced by the failure with the message
  \<^verbatim>\<open>Invalid data\<close> and the empty path, whatever the thrown value was.
\<close>

theorem createDecoder_decode_never_raises:
  "decode (createDecoder fd) x =
     (case fd x of
        Inr v \<Rightarrow> Inr v
      | Inl (Thrown_DecoderError e) \<Rightarrow> Inl e
      | Inl (Thrown_Other d) \<Rightarrow> Inl \<lparr>message = ''Invalid data'', path = []\<rparr>)"
  by (simp add: new_DecoderError_def split: sum.splits thrown.splits)

theorem createDecoder_decode_never_raises_witness:
  "decode (createDecoder (\<lambda>d. Inl (Thrown_Other ''test''))) (Num (Fin 5))
     = Inl \<lparr>message = ''Invalid data'', path = []\<rparr>
   \<and> decode (createDecoder (\<lambda>d. Inl (Thrown_DecoderError \<lparr>message = ''m'', path = [''p'']\<rparr>))) Null
     = Inl \<lparr>message = ''m'', path = [''p'']\<rparr>"
  using createDecoder_decode_never_raises [of "\<lambda>d. Inl (Thrown_Other ''test'')" "Num (Fin 5)"]
    createDecoder_decode_never_raises
      [of "\<lambda>d. Inl (Thrown_DecoderError \<lparr>message = ''m'', path = [''p'']\<rparr>)" Null]
  by simp

text \<open>
  Claim C2. For every decoder built by \<^verbatim>\<open>createDecoder\<close> and every input \<open>x\<close>,
  \<^verbatim>\<open>is(x)\<close> is true exactly when \<^verbatim>\<open>decode(x)\<close> is a success, which is exactly when
  \<^verbatim>\<open>forceDecode\<close> returns; whatever \<^verbatim>\<open>forceDecode\<close> throws, a \<^verbatim>\<open>DecoderError\<close> or
  not, \<^verbatim>\<open>is\<close> answers false.
\<close>

theorem is_iff_decode_succeeds:
  "(is_data (createDecoder fd) x \<longleftrightarrow> (\<exists>v. decode (createDecoder fd) x = Inr v))
   \<and> (is_data (createDecoder fd) x \<longleftrightarrow> (\<exists>v. fd x = Inr v))
   \<and> (\<forall>e. fd x = Inl e \<longrightarrow> \<not> is_data (createDecoder fd) x)"
  by (cases "fd x") simp_all

theorem is_iff_decode_succeeds_witness:
  "is_data string (Str ''test'') \<and> decode string (Str ''test'') = Inr (Str ''test'')
   \<and> \<not> is_data (createDecoder (\<lambda>d. Inl (Thrown_Other ''test''))) (Num (Fin 5))"
  using is_iff_decode_succeeds [of "\<lambda>d. Inl (Thrown_Other ''test'')" "Num (Fin 5)"]
  by (simp add: string_def primitiveDecoder_def checkDefined_def)

text \<open>
  Claim C8. The constructor renders the message once: with an empty path the message is
  kept, with exactly one segment it becomes the segment, a colon, a blank and the message,
  and with more than one segment it becomes the first segment, a dot and the message; the
  remaining segments are not written into it. The path is stored as given.
\<close>

theorem DecoderError_message_rendering:
  "message (new_DecoderError m []) = m
   \<and> message (new_DecoderError m [s]) = s @ '': '' @ m
   \<and> message (new_DecoderError m (s # t # rest)) = s @ ''.'' @ m
   \<and> path (new_DecoderError m p) = p"
  by (simp add: new_DecoderError_def)

theorem DecoderError_message_rendering_witness:
  "message (new_DecoderError ''bad'' [''a'']) = ''a: bad''
   \<and> message (new_DecoderError ''bad'' [''a'', ''b'', ''c'']) = ''a.bad''"
  using DecoderError_message_rendering [of "''bad''" "''a''" "''b''" "[''c'']" "[]"]
  by simp

section \<open>Auxiliary facts on failing decoders\<close>

lemma primitiveDecoder_rejects_null:
  "isl (decode (primitiveDecoder t c) Null) \<and> isl (decode (primitiveDecoder t c) Undefined)"
  by (simp add: primitiveDecoder_def checkDefined_def)

lemma literal_rejects_null:
  "isl (decode (literal lit) Null) \<and> isl (decode (literal lit) Undefined)"
  by (simp add: literal_def checkDefined_def)

lemma andThen_fails:
  "isl (decode (createDecoder fd) x) \<Longrightarrow> isl (decode (andThen (createDecoder fd) t) x)"
  by (cases "fd x") simp_all

section \<open>Alternation: the first success wins\<close>

lemma upt_shift: "i < j \<Longrightarrow> i # [Suc i..<j] = [i..<j]"
  by (rule upt_conv_Cons [symmetric])

lemma oneOf_loop_all_fail:
  "\<forall>d\<in>set ds. isl (decode d x) \<Longrightarrow>
   oneOf_loop ds x i errs =
     ([i..<i + length ds],
      Inl (Thrown_DecoderError (new_DecoderError
        (''None of the decoders worked:'' @ [CHR 0x0A]
           @ show (Arr (map Str (errs @ map (\<lambda>d. message (projl (decode d x))) ds)))) [])))"
proof (induction ds arbitrary: i errs)
  case Nil
  then show ?case by simp
next
  case (Cons d ds)
  then obtain e where e: "decode d x = Inl e"
    by (cases "decode d x") auto
  have "oneOf_loop ds x (Suc i) (errs @ [message e]) =
     ([Suc i..<Suc i + length ds],
      Inl (Thrown_DecoderError (new_DecoderError
        (''None of the decoders worked:'' @ [CHR 0x0A]
           @ show (Arr (map Str ((errs @ [message e]) @ map (\<lambda>d. message (projl (decode d x))) ds)))) [])))"
    using Cons.prems by (intro Cons.IH) simp
  with e show ?case
    by (simp add: upt_shift del: upt_Suc)
qed

lemma oneOf_loop_first_success:
  "k < length ds \<Longrightarrow> decode (ds ! k) x = Inr v \<Longrightarrow> \<forall>j<k. isl (decode (ds ! j) x) \<Longrightarrow>
   oneOf_loop ds x i errs = ([i..<i + Suc k], Inr v)"
proof (induction ds arbitrary: k i errs)
  case Nil
  then show ?case by simp
next
  case (Cons d ds)
  show ?case
  proof (cases k)
    case 0
    with Cons.prems show ?thesis by simp
  next
    case (Suc k')
    from Cons.prems(3) Suc obtain e where e: "decode d x = Inl e"
      by (cases "decode d x") force+
    have "oneOf_loop ds x (Suc i) (errs @ [message e]) = ([Suc i..<Suc i + Suc k'], Inr v)"
    proof (rule Cons.IH)
      show "k' < length ds" using Cons.prems(1) Suc by simp
      show "decode (ds ! k') x = Inr v" using Cons.prems(2) Suc by simp
      show "\<forall>j<k'. isl (decode (ds ! j) x)"
        using Cons.prems(3) Suc by auto
    qed
    with e Suc show ?thesis
      by (simp add: upt_shift del: upt_Suc)
  qed
qed

lemma oneOf_loop_calls_prefix:
  "\<exists>m\<le>length ds. fst (oneOf_loop ds x i errs) = [i..<i + m]"
proof (induction ds arbitrary: i errs)
  case Nil
  then show ?case by simp
next
  case (Cons d ds)
  show ?case
  proof (cases "decode d x")
    case (Inr v)
    then have "fst (oneOf_loop (d # ds) x i errs) = [i..<i + 1]" by simp
    then show ?thesis by (intro exI [of _ 1]) simp
  next
    case (Inl e)
    from Cons.IH [of "Suc i" "errs @ [message e]"]
    obtain m where m: "m \<le> length ds"
      "fst (oneOf_loop ds x (Suc i) (errs @ [message e])) = [Suc i..<Suc i + m]"
      by blast
    with Inl have "fst (oneOf_loop (d # ds) x i errs) = [i..<i + Suc m]"
      by (cases "oneOf_loop ds x (Suc i) (errs @ [message e])") (simp add: upt_shift del: upt_Suc)
    with m(1) show ?thesis by (intro exI [of _ "Suc m"]) simp
  qed
qed

lemma oneOf_all_fail_isl:
  "\<forall>d\<in>set ds. isl (decode d x) \<Longrightarrow> isl (decode (oneOf ds) x)"
  by (simp add: oneOf_def oneOf_loop_all_fail)

lemma decode_string_5: "decode string (Num (Fin 5)) = Inl \<lparr>message = ''This is not a string: 5'', path = []\<rparr>"
  by (simp add: string_def primitiveDecoder_def checkDefined_def new_DecoderError_def show_def int_to_string_def digits.simps)

lemma decode_number_5: "decode number (Num (Fin 5)) = Inr (Num (Fin 5))"
  by (simp add: number_def primitiveDecoder_def checkDefined_def)

lemma decode_boolean_5: "decode boolean (Num (Fin 5)) = Inl \<lparr>message = ''This is not a boolean: 5'', path = []\<rparr>"
  by (simp add: boolean_def primitiveDecoder_def checkDefined_def new_DecoderError_def show_def int_to_string_def digits.simps)

text \<open>
  Claim C3. For every list of decoders and every input \<open>x\<close>, \<^verbatim>\<open>oneOf\<close> calls
  \<^verbatim>\<open>decode\<close> of the decoders in the given order on \<open>x\<close>, each position at most once
  (the positions called are \<open>0, 1, ..., m - 1\<close> for some \<open>m\<close> up to the number of decoders),
  and returns the result of the first decoder that succeeds, calling none after it. If all
  of them fail, it has called every one once and fails with the empty path and a message
  made of \<^verbatim>\<open>None of the decoders worked:\<close>, a line break and the serialised array of
  all their messages, in order.
\<close>

theorem oneOf_first_success:
  "(k < length ds \<and> decode (ds ! k) x = Inr v \<and> (\<forall>j<k. isl (decode (ds ! j) x))
      \<longrightarrow> decode (oneOf ds) x = Inr v \<and> oneOf_calls ds x = [0..<Suc k])
   \<and> ((\<forall>d\<in>set ds. isl (decode d x))
      \<longrightarrow> decode (oneOf ds) x =
            Inl \<lparr>message = ''None of the decoders worked:'' @ [CHR 0x0A]
                   @ show (Arr (map (\<lambda>d. Str (message (projl (decode d x)))) ds)),
                 path = []\<rparr>
          \<and> oneOf_calls ds x = [0..<length ds])
   \<and> (\<exists>m\<le>length ds. oneOf_calls ds x = [0..<m])"
proof (intro conjI impI)
  assume a: "k < length ds \<and> decode (ds ! k) x = Inr v \<and> (\<forall>j<k. isl (decode (ds ! j) x))"
  then have l: "oneOf_loop ds x 0 [] = ([0..<0 + Suc k], Inr v)"
    by (intro oneOf_loop_first_success) simp_all
  then show "decode (oneOf ds) x = Inr v" by (simp add: oneOf_def)
  from l show "oneOf_calls ds x = [0..<Suc k]" by (simp add: oneOf_calls_def)
next
  assume a: "\<forall>d\<in>set ds. isl (decode d x)"
  note l = oneOf_loop_all_fail [OF a, of 0 "[]"]
  then show "decode (oneOf ds) x =
            Inl \<lparr>message = ''None of the decoders worked:'' @ [CHR 0x0A]
                   @ show (Arr (map (\<lambda>d. Str (message (projl (decode d x)))) ds)),
                 path = []\<rparr>"
    by (simp add: oneOf_def new_DecoderError_def comp_def)
  from l show "oneOf_calls ds x = [0..<length ds]" by (simp add: oneOf_calls_def)
next
  show "\<exists>m\<le>length ds. oneOf_calls ds x = [0..<m]"
    using oneOf_loop_calls_prefix [of ds x 0 "[]"] by (simp add: oneOf_calls_def)
qed

theorem oneOf_first_success_witness:
  "decode (oneOf [string, number, boolean]) (Num (Fin 5)) = Inr (Num (Fin 5))
   \<and> oneOf_calls [string, number, boolean] (Num (Fin 5)) = [0, 1]
   \<and> decode (oneOf [string, boolean]) (Num (Fin 5)) =
       Inl \<lparr>message = ''None of the decoders worked:'' @ [CHR 0x0A] @ ''['' @ [CHR 0x0A]
              @ ''  '' @ [CHR 0x22] @ ''This is not a string: 5'' @ [CHR 0x22] @ '','' @ [CHR 0x0A]
              @ ''  '' @ [CHR 0x22] @ ''This is not a boolean: 5'' @ [CHR 0x22] @ [CHR 0x0A] @ '']'',
            path = []\<rparr>
   \<and> oneOf_calls [string, boolean] (Num (Fin 5)) = [0, 1]"
proof -
  have h1: "(1::nat) < length [string, number, boolean]
      \<and> decode ([string, number, boolean] ! 1) (Num (Fin 5)) = Inr (Num (Fin 5))
      \<and> (\<forall>j<1. isl (decode ([string, number, boolean] ! j) (Num (Fin 5))))"
    by (simp add: decode_string_5 decode_number_5)
  have h2: "\<forall>d\<in>set [string, boolean]. isl (decode d (Num (Fin 5)))"
    by (simp add: decode_string_5 decode_boolean_5)
  have u: "[0..<Suc 1] = [0, 1]" "[0..<length [string, boolean]] = [0, 1]"
    by (simp_all add: upt_rec)
  from oneOf_first_success [of 1 "[string, number, boolean]" "Num (Fin 5)" "Num (Fin 5)"] h1
  have a: "decode (oneOf [string, number, boolean]) (Num (Fin 5)) = Inr (Num (Fin 5))
      \<and> oneOf_calls [string, number, boolean] (Num (Fin 5)) = [0, 1]"
    unfolding u by blast
  from oneOf_first_success [of 0 "[string, boolean]" "Num (Fin 5)" Null] h2
  have b: "decode (oneOf [string, boolean]) (Num (Fin 5)) =
            Inl \<lparr>message = ''None of the decoders worked:'' @ [CHR 0x0A]
                   @ show (Arr (map (\<lambda>d. Str (message (projl (decode d (Num (Fin 5)))))) [string, boolean])),
                 path = []\<rparr>
          \<and> oneOf_calls [string, boolean] (Num (Fin 5)) = [0, 1]"
    unfolding u by blast
  have s: "show (Arr (map (\<lambda>d. Str (message (projl (decode d (Num (Fin 5)))))) [string, boolean]))
     = ''['' @ [CHR 0x0A]
              @ ''  '' @ [CHR 0x22] @ ''This is not a string: 5'' @ [CHR 0x22] @ '','' @ [CHR 0x0A]
              @ ''  '' @ [CHR 0x22] @ ''This is not a boolean: 5'' @ [CHR 0x22] @ [CHR 0x0A] @ '']''"
    by (simp add: decode_string_5 decode_boolean_5 show_def quote_def quote_char_def)
  from a b show ?thesis unfolding s by simp
qed

section \<open>Primitive decoders on the missing value and on null\<close>

text \<open>
  Claim C9, as stated, fails: \<^verbatim>\<open>unknown\<close> stands among the primitives of the source
  and succeeds on \<^verbatim>\<open>null\<close> and on \<^verbatim>\<open>undefined\<close>, returning the input.
\<close>

theorem unknown_accepts_null_and_undefined:
  "decode unknown Null = Inr Null \<and> decode unknown Undefined = Inr Undefined"
  by (simp add: unknown_def)

text \<open>
  Claim C9, amended. The decoders \<^verbatim>\<open>string\<close>, \<^verbatim>\<open>number\<close>, \<^verbatim>\<open>boolean\<close>,
  \<^verbatim>\<open>literal(v)\<close>, \<^verbatim>\<open>literalUnion(...)\<close> and \<^verbatim>\<open>regex(p)\<close> fail on \<^verbatim>\<open>undefined\<close>
  and on \<^verbatim>\<open>null\<close>, and \<^verbatim>\<open>never\<close> fails on every input. The \<^verbatim>\<open>null\<close> decoder
  succeeds exactly on \<^verbatim>\<open>null\<close>, returning it, and so fails on \<^verbatim>\<open>undefined\<close>. The
  decoders \<^verbatim>\<open>unknown\<close> and \<^verbatim>\<open>succeed(v)\<close> succeed on every input, \<^verbatim>\<open>null\<close> and
  \<^verbatim>\<open>undefined\<close> included: \<^verbatim>\<open>unknown\<close> returns the input, \<^verbatim>\<open>succeed(v)\<close> returns \<open>v\<close>.
\<close>

theorem primitives_on_null_and_undefined:
  "isl (decode string Null) \<and> isl (decode string Undefined)
   \<and> isl (decode number Null) \<and> isl (decode number Undefined)
   \<and> isl (decode boolean Null) \<and> isl (decode boolean Undefined)
   \<and> isl (decode (literal lit) Null) \<and> isl (decode (literal lit) Undefined)
   \<and> isl (decode (literalUnion lits) Null) \<and> isl (decode (literalUnion lits) Undefined)
   \<and> isl (decode (regex test printed) Null) \<and> isl (decode (regex test printed) Undefined)
   \<and> isl (decode never x)
   \<and> (decode null_decoder x = Inr v \<longleftrightarrow> x = Null \<and> v = Null)
   \<and> isl (decode null_decoder Undefined)
   \<and> decode unknown x = Inr x
   \<and> decode (succeed v) x = Inr v"
proof -
  have lu: "isl (decode (literalUnion lits) Null) \<and> isl (decode (literalUnion lits) Undefined)"
    unfolding literalUnion_def
    by (intro conjI oneOf_all_fail_isl) (simp_all add: literal_rejects_null)
  have re: "isl (decode (regex test printed) Null) \<and> isl (decode (regex test printed) Undefined)"
    unfolding regex_def string_def primitiveDecoder_def
    by (intro conjI andThen_fails) (simp_all add: checkDefined_def)
  have nu: "decode null_decoder x = Inr v \<longleftrightarrow> x = Null \<and> v = Null"
    by (auto simp add: null_decoder_def)
  show ?thesis
    using lu re nu
    by (simp add: string_def number_def boolean_def primitiveDecoder_rejects_null
        literal_rejects_null never_def unknown_def succeed_def)
      (simp add: null_decoder_def)
qed

theorem primitives_on_null_and_undefined_witness:
  "decode null_decoder Null = Inr Null
   \<and> isl (decode (literal (Str ''test'')) Null) \<and> isl (decode never Null)
   \<and> decode unknown Null = Inr Null
   \<and> decode (succeed Null) Null = Inr Null"
  using primitives_on_null_and_undefined [of "Str ''test''" "[]" "\<lambda>s. True" "[]" Null Null]
  by simp

section \<open>Nullable decoders\<close>

text \<open>
  Claim C10. For every decoder \<open>d\<close>: if \<open>d\<close> fails on \<^verbatim>\<open>null\<close>, then \<^verbatim>\<open>nullable(d)\<close>
  succeeds on \<^verbatim>\<open>null\<close> with the marker \<^verbatim>\<open>none\<close>; if \<open>d\<close> fails on \<^verbatim>\<open>undefined\<close>,
  so does \<^verbatim>\<open>nullable(d)\<close>; and if \<open>d\<close> succeeds on \<open>x\<close> with a value \<open>v\<close> that is
  neither \<^verbatim>\<open>null\<close> nor \<^verbatim>\<open>undefined\<close>, then \<^verbatim>\<open>nullable(d)\<close> succeeds on \<open>x\<close> with
  \<^verbatim>\<open>some(v)\<close>.
\<close>

theorem nullable_spec:
  "(isl (decode d Null) \<longrightarrow> decode (nullable d) Null = Inr none)
   \<and> (isl (decode d Undefined) \<longrightarrow> isl (decode (nullable d) Undefined))
   \<and> (decode d x = Inr v \<and> v \<noteq> Null \<and> v \<noteq> Undefined
        \<longrightarrow> decode (nullable d) x = Inr (some v))"
proof (intro conjI impI)
  assume "isl (decode d Null)"
  then obtain e where "decode d Null = Inl e" by (cases "decode d Null") auto
  then show "decode (nullable d) Null = Inr none"
    by (simp add: nullable_def oneOf_def null_decoder_def fromNullable_def)
next
  assume "isl (decode d Undefined)"
  then obtain e where "decode d Undefined = Inl e" by (cases "decode d Undefined") auto
  then show "isl (decode (nullable d) Undefined)"
    by (simp add: nullable_def oneOf_def null_decoder_def)
next
  assume "decode d x = Inr v \<and> v \<noteq> Null \<and> v \<noteq> Undefined"
  then show "decode (nullable d) x = Inr (some v)"
    by (simp add: nullable_def oneOf_def fromNullable_def)
qed

theorem nullable_spec_witness:
  "isl (decode string Null) \<and> decode (nullable string) Null = Inr none
   \<and> isl (decode string Undefined) \<and> isl (decode (nullable string) Undefined)
   \<and> decode string (Str ''test'') = Inr (Str ''test'')
   \<and> decode (nullable string) (Str ''test'') = Inr (some (Str ''test''))"
proof -
  have h: "isl (decode string Null)" "isl (decode string Undefined)"
    "decode string (Str ''test'') = Inr (Str ''test'')"
    by (simp_all add: string_def primitiveDecoder_def checkDefined_def)
  with nullable_spec [of string "Str ''test''" "Str ''test''"] show ?thesis
    by simp
qed

section \<open>Tuples\<close>

lemma forceDecodeWithPath_Inr:
  "decode d x = Inr v \<Longrightarrow> forceDecodeWithPath d x p = Inr v"
  by (simp add: forceDecodeWithPath_def forceDecode_def)

lemma forceDecodeWithPath_Inl:
  "decode d x = Inl e \<Longrightarrow>
   forceDecodeWithPath d x p = Inl (Thrown_DecoderError (new_DecoderError (message e) (p # path e)))"
  by (simp add: forceDecodeWithPath_def forceDecode_def)

lemma tuple_map_success:
  "length vs = length ds \<Longrightarrow>
   \<forall>j<length ds. decode (ds ! j) (elementAt xs (i + j)) = Inr (vs ! j) \<Longrightarrow>
   tuple_map ds xs i = Inr vs"
proof (induction ds arbitrary: vs i)
  case Nil
  then show ?case by simp
next
  case (Cons d ds)
  then obtain w ws where vs: "vs = w # ws" by (cases vs) auto
  from Cons.prems(2) have "decode ((d # ds) ! 0) (elementAt xs (i + 0)) = Inr (vs ! 0)"
    by blast
  with vs have hd: "decode d (elementAt xs i) = Inr w" by simp
  have "tuple_map ds xs (Suc i) = Inr ws"
  proof (rule Cons.IH)
    show "length ws = length ds" using Cons.prems(1) vs by simp
    show "\<forall>j<length ds. decode (ds ! j) (elementAt xs (Suc i + j)) = Inr (ws ! j)"
    proof (intro allI impI)
      fix j assume "j < length ds"
      then have "decode ((d # ds) ! Suc j) (elementAt xs (i + Suc j)) = Inr (vs ! Suc j)"
        using Cons.prems(2) by (metis Suc_less_eq length_Cons)
      with vs show "decode (ds ! j) (elementAt xs (Suc i + j)) = Inr (ws ! j)" by simp
    qed
  qed
  with hd vs show ?case by (simp add: forceDecodeWithPath_Inr)
qed

lemma tuple_map_first_failure:
  "k < length ds \<Longrightarrow> decode (ds ! k) (elementAt xs (i + k)) = Inl e \<Longrightarrow>
   \<forall>j<k. \<not> isl (decode (ds ! j) (elementAt xs (i + j))) \<Longrightarrow>
   tuple_map ds xs i =
     Inl (Thrown_DecoderError (new_DecoderError (message e) (digits (i + k) # path e)))"
proof (induction ds arbitrary: k i)
  case Nil
  then show ?case by simp
next
  case (Cons d ds)
  show ?case
  proof (cases k)
    case 0
    with Cons.prems(2) show ?thesis by (simp add: forceDecodeWithPath_Inl)
  next
    case (Suc k')
    from Cons.prems(3) Suc have "\<not> isl (decode ((d # ds) ! 0) (elementAt xs (i + 0)))"
      by blast
    then obtain w where hd: "decode d (elementAt xs i) = Inr w"
      by (cases "decode d (elementAt xs i)") auto
    have "tuple_map ds xs (Suc i) =
      Inl (Thrown_DecoderError (new_DecoderError (message e) (digits (Suc i + k') # path e)))"
    proof (rule Cons.IH)
      show "k' < length ds" using Cons.prems(1) Suc by simp
      show "decode (ds ! k') (elementAt xs (Suc i + k')) = Inl e"
        using Cons.prems(2) Suc by simp
      show "\<forall>j<k'. \<not> isl (decode (ds ! j) (elementAt xs (Suc i + j)))"
      proof (intro allI impI)
        fix j assume "j < k'"
        then have "\<not> isl (decode ((d # ds) ! Suc j) (elementAt xs (i + Suc j)))"
          using Cons.prems(3) Suc by (metis Suc_less_eq)
        then show "\<not> isl (decode (ds ! j) (elementAt xs (Suc i + j)))" by simp
      qed
    qed
    with hd Suc show ?thesis by (simp add: forceDecodeWithPath_Inr)
  qed
qed

lemma decode_tuple_Arr:
  "decode (tuple ds) (Arr xs) =
     (if length ds > length xs
      then Inl (new_DecoderError (''The tuple is not long enough. '' @ digits (length ds)
                  @ '' > '' @ digits (length xs)) [])
      else (case tuple_map ds xs 0 of
              Inl (Thrown_DecoderError e) \<Rightarrow> Inl e
            | Inl (Thrown_Other t) \<Rightarrow> Inl (new_DecoderError ''Invalid data'' [])
            | Inr vs \<Rightarrow> Inr (Arr vs)))"
  by (simp add: tuple_def checkDefined_def checkArrayType_def split: sum.splits thrown.splits)

lemma decode_string_empty: "decode string (Str []) = Inr (Str [])"
  by (simp add: string_def primitiveDecoder_def checkDefined_def)

lemma decode_string_6:
  "decode string (Num (Fin 6)) = Inl \<lparr>message = ''This is not a string: 6'', path = []\<rparr>"
  by (simp add: string_def primitiveDecoder_def checkDefined_def new_DecoderError_def show_def
      int_to_string_def digits.simps)

text \<open>
  Claim C5, as stated, fails in its first part: a tuple decoder also fails on a sequence
  that is long enough when an element decoder fails. Here the sequence has exactly as many
  elements as there are decoders.
\<close>

theorem tuple_equal_length_element_failure:
  "isl (decode (tuple [string]) (Arr [Num (Fin 5)]))
   \<and> \<not> length [Num (Fin 5)] < length [string]"
  by (simp add: decode_tuple_Arr forceDecodeWithPath_def forceDecode_def string_def
      primitiveDecoder_def checkDefined_def elementAt_def)

text \<open>
  Claim C5, amended. For decoders \<open>d\<^sub>1 ... d\<^sub>n\<close> and a sequence: the tuple decoder fails
  when the sequence has fewer than \<open>n\<close> elements. When it has at least \<open>n\<close>, the decoder
  fails exactly when some \<open>d\<^sub>i\<close> fails on the element at its position; if every \<open>d\<^sub>i\<close>
  succeeds, the result is the sequence of exactly the \<open>n\<close> decoded elements of the positions
  \<open>0 ... n - 1\<close>, and the elements beyond are dropped; otherwise the failure is the one of
  the first failing position, rebuilt with the index of that position, as a string, put in
  front of its path.
\<close>

theorem tuple_spec:
  "(length xs < length ds \<longrightarrow> isl (decode (tuple ds) (Arr xs)))
   \<and> (length ds \<le> length xs \<and> length vs = length ds
        \<and> (\<forall>j<length ds. decode (ds ! j) (xs ! j) = Inr (vs ! j))
      \<longrightarrow> decode (tuple ds) (Arr xs) = Inr (Arr vs))
   \<and> (length ds \<le> length xs \<and> k < length ds \<and> decode (ds ! k) (xs ! k) = Inl e
        \<and> (\<forall>j<k. \<not> isl (decode (ds ! j) (xs ! j)))
      \<longrightarrow> decode (tuple ds) (Arr xs) = Inl (new_DecoderError (message e) (digits k # path e)))
   \<and> (length ds \<le> length xs
      \<longrightarrow> (isl (decode (tuple ds) (Arr xs)) \<longleftrightarrow> (\<exists>j<length ds. isl (decode (ds ! j) (xs ! j)))))"
proof (intro conjI impI)
  assume "length xs < length ds"
  then show "isl (decode (tuple ds) (Arr xs))" by (simp add: decode_tuple_Arr)
next
  assume a: "length ds \<le> length xs \<and> length vs = length ds
        \<and> (\<forall>j<length ds. decode (ds ! j) (xs ! j) = Inr (vs ! j))"
  then have "tuple_map ds xs 0 = Inr vs"
    by (intro tuple_map_success) (simp_all add: elementAt_def)
  with a show "decode (tuple ds) (Arr xs) = Inr (Arr vs)" by (simp add: decode_tuple_Arr)
next
  assume a: "length ds \<le> length xs \<and> k < length ds \<and> decode (ds ! k) (xs ! k) = Inl e
        \<and> (\<forall>j<k. \<not> isl (decode (ds ! j) (xs ! j)))"
  then have "tuple_map ds xs 0 =
     Inl (Thrown_DecoderError (new_DecoderError (message e) (digits (0 + k) # path e)))"
    by (intro tuple_map_first_failure) (simp_all add: elementAt_def)
  with a show "decode (tuple ds) (Arr xs) = Inl (new_DecoderError (message e) (digits k # path e))"
    by (simp add: decode_tuple_Arr)
next
  assume len: "length ds \<le> length xs"
  show "isl (decode (tuple ds) (Arr xs)) \<longleftrightarrow> (\<exists>j<length ds. isl (decode (ds ! j) (xs ! j)))"
  proof
    assume fails: "isl (decode (tuple ds) (Arr xs))"
    show "\<exists>j<length ds. isl (decode (ds ! j) (xs ! j))"
    proof (rule ccontr)
      assume "\<not> (\<exists>j<length ds. isl (decode (ds ! j) (xs ! j)))"
      then have ok: "\<forall>j<length ds. \<not> isl (decode (ds ! j) (xs ! j))" by blast
      define ws where "ws = map (\<lambda>j. projr (decode (ds ! j) (xs ! j))) [0..<length ds]"
      have "tuple_map ds xs 0 = Inr ws"
      proof (rule tuple_map_success)
        show "length ws = length ds" by (simp add: ws_def)
        show "\<forall>j<length ds. decode (ds ! j) (elementAt xs (0 + j)) = Inr (ws ! j)"
          using ok len by (simp add: ws_def elementAt_def)
      qed
      with len have "decode (tuple ds) (Arr xs) = Inr (Arr ws)"
        by (simp add: decode_tuple_Arr)
      with fails show False by simp
    qed
  next
    assume "\<exists>j<length ds. isl (decode (ds ! j) (xs ! j))"
    then obtain j where j: "j < length ds" "isl (decode (ds ! j) (xs ! j))" by blast
    define k where "k = (LEAST j. j < length ds \<and> isl (decode (ds ! j) (xs ! j)))"
    have k: "k < length ds \<and> isl (decode (ds ! k) (xs ! k))"
      unfolding k_def using j by (intro LeastI [of "\<lambda>j. j < length ds \<and> isl (decode (ds ! j) (xs ! j))" j]) simp
    have least: "\<forall>i<k. \<not> isl (decode (ds ! i) (xs ! i))"
    proof (intro allI impI)
      fix i assume ik: "i < k"
      then have "\<not> (i < length ds \<and> isl (decode (ds ! i) (xs ! i)))"
        unfolding k_def by (rule not_less_Least)
      with ik k show "\<not> isl (decode (ds ! i) (xs ! i))" by simp
    qed
    from k obtain e where e: "decode (ds ! k) (xs ! k) = Inl e"
      by (cases "decode (ds ! k) (xs ! k)") auto
    have "tuple_map ds xs 0 =
       Inl (Thrown_DecoderError (new_DecoderError (message e) (digits (0 + k) # path e)))"
      using k e least len by (intro tuple_map_first_failure) (simp_all add: elementAt_def)
    with len show "isl (decode (tuple ds) (Arr xs))" by (simp add: decode_tuple_Arr)
  qed
qed

theorem tuple_spec_witness:
  "isl (decode (tuple [unknown, unknown]) (Arr [Num (Fin 5)]))
   \<and> decode (tuple [number, string]) (Arr [Num (Fin 5), Str [], Bool True])
       = Inr (Arr [Num (Fin 5), Str []])
   \<and> decode (tuple [number, string]) (Arr [Num (Fin 5), Num (Fin 6)])
       = Inl \<lparr>message = ''1: This is not a string: 6'', path = [''1'']\<rparr>"
proof -
  have a: "isl (decode (tuple [unknown, unknown]) (Arr [Num (Fin 5)]))"
    using tuple_spec [of "[Num (Fin 5)]" "[unknown, unknown]" "[]" 0 "\<lparr>message = [], path = []\<rparr>"] by simp
  have h2: "length [number, string] \<le> length [Num (Fin 5), Str [], Bool True]
      \<and> length [Num (Fin 5), Str []] = length [number, string]
      \<and> (\<forall>j<length [number, string].
            decode ([number, string] ! j) ([Num (Fin 5), Str [], Bool True] ! j)
              = Inr ([Num (Fin 5), Str []] ! j))"
    by (simp add: All_less_Suc decode_number_5 decode_string_empty)
  have b: "decode (tuple [number, string]) (Arr [Num (Fin 5), Str [], Bool True])
       = Inr (Arr [Num (Fin 5), Str []])"
    using tuple_spec [of "[Num (Fin 5), Str [], Bool True]" "[number, string]"
        "[Num (Fin 5), Str []]" 0 "\<lparr>message = [], path = []\<rparr>"] h2
    by blast
  have h3: "length [number, string] \<le> length [Num (Fin 5), Num (Fin 6)]
      \<and> 1 < length [number, string]
      \<and> decode ([number, string] ! 1) ([Num (Fin 5), Num (Fin 6)] ! 1)
          = Inl \<lparr>message = ''This is not a string: 6'', path = []\<rparr>
      \<and> (\<forall>j<1. \<not> isl (decode ([number, string] ! j) ([Num (Fin 5), Num (Fin 6)] ! j)))"
    by (simp add: decode_number_5 decode_string_6)
  have "decode (tuple [number, string]) (Arr [Num (Fin 5), Num (Fin 6)])
       = Inl (new_DecoderError (message \<lparr>message = ''This is not a string: 6'', path = []\<rparr>)
           (digits 1 # path \<lparr>message = ''This is not a string: 6'', path = []\<rparr>))"
    using tuple_spec [of "[Num (Fin 5), Num (Fin 6)]" "[number, string]" "[]" 1
        "\<lparr>message = ''This is not a string: 6'', path = []\<rparr>"] h3
    by blast
  then have c: "decode (tuple [number, string]) (Arr [Num (Fin 5), Num (Fin 6)])
       = Inl \<lparr>message = ''1: This is not a string: 6'', path = [''1'']\<rparr>"
    by (simp add: new_DecoderError_def digits.simps)
  from a b c show ?thesis by simp
qed

section \<open>Structured objects\<close>

lemma map_of_update_in_place:
  "map_of (map (\<lambda>(k', v'). if k' = k then (k', v) else (k', v')) ps) =
     (\<lambda>x. if x = k \<and> map_of ps k \<noteq> None then Some v else map_of ps x)"
  by (induction ps) (auto simp add: fun_eq_iff)

lemma map_of_insert_index:
  "map_of ps k = None \<Longrightarrow> map_of (insert_index k v ps) = (map_of ps)(k \<mapsto> v)"
  by (induction ps) (auto simp add: fun_eq_iff split: if_splits)

lemma map_of_setProp: "map_of (setProp ps k v) = (map_of ps)(k \<mapsto> v)"
proof (cases "hasProp ps k")
  case True
  then show ?thesis
    by (auto simp add: setProp_def hasProp_def map_of_update_in_place fun_eq_iff)
next
  case False
  then have none: "map_of ps k = None" by (simp add: hasProp_def)
  show ?thesis
  proof (cases "is_array_index k")
    case True
    with False none show ?thesis by (simp add: setProp_def map_of_insert_index)
  next
    case idx: False
    with False none show ?thesis
      by (auto simp add: setProp_def fun_eq_iff map_add_def split: option.splits)
  qed
qed

lemma getProp_setProp:
  "getProp (setProp ps k v) k' = (if k' = k then v else getProp ps k')"
  by (simp add: getProp_def map_of_setProp)

lemma hasProp_setProp: "hasProp (setProp ps k v) k' \<longleftrightarrow> k' = k \<or> hasProp ps k'"
  by (simp add: hasProp_def map_of_setProp)

lemma keys_insert_index:
  "set (map fst (insert_index k v ps)) = insert k (set (map fst ps))"
  by (induction k v ps rule: insert_index.induct) (simp_all add: insert_commute)

lemma distinct_insert_index:
  "distinct (map fst ps) \<Longrightarrow> k \<notin> set (map fst ps) \<Longrightarrow> distinct (map fst (insert_index k v ps))"
proof (induction ps)
  case Nil
  then show ?case by simp
next
  case (Cons p ps)
  obtain k' v' where p: "p = (k', v')" by (cases p)
  with Cons show ?case
    using keys_insert_index [of k v ps] by auto
qed

lemma keys_update_in_place:
  "map (fst \<circ> (\<lambda>(k', v'). if k' = k then (k', v) else (k', v'))) ps = map fst ps"
  by (induction ps) auto

lemma distinct_setProp:
  "distinct (map fst ps) \<Longrightarrow> distinct (map fst (setProp ps k v))"
proof (cases "hasProp ps k")
  case True
  assume "distinct (map fst ps)"
  with True show ?thesis by (simp add: setProp_def keys_update_in_place)
next
  case False
  assume d: "distinct (map fst ps)"
  from False have "map_of ps k = None" by (simp add: hasProp_def)
  then have nk: "k \<notin> set (map fst ps)" by (simp add: map_of_eq_None_iff)
  show ?thesis
  proof (cases "is_array_index k")
    case True
    with False d nk show ?thesis by (simp add: setProp_def distinct_insert_index)
  next
    case idx: False
    with False d nk show ?thesis by (simp add: setProp_def)
  qed
qed

lemma partial_loop_distinct:
  "partial_loop opt ps parsed = Inr r \<Longrightarrow> distinct (map fst parsed) \<Longrightarrow> distinct (map fst r)"
proof (induction opt arbitrary: parsed)
  case Nil
  then show ?case by simp
next
  case (Cons p opt)
  obtain key d where p: "p = (key, d)" by (cases p)
  show ?case
  proof (cases "getProp ps key = Undefined")
    case True
    with Cons.prems p have "partial_loop opt ps (setProp parsed key none) = Inr r" by simp
    from Cons.IH [OF this distinct_setProp [OF Cons.prems(2)]] show ?thesis .
  next
    case False
    with Cons.prems p obtain v where
      "partial_loop opt ps (setProp parsed key (some v)) = Inr r"
      by (auto split: sum.splits)
    from Cons.IH [OF this distinct_setProp [OF Cons.prems(2)]] show ?thesis .
  qed
qed

lemma partial_loop_other_keys:
  "partial_loop opt ps parsed = Inr r \<Longrightarrow> f \<notin> set (map fst opt) \<Longrightarrow>
   map_of r f = map_of parsed f"
proof (induction opt arbitrary: parsed)
  case Nil
  then show ?case by simp
next
  case (Cons p opt)
  obtain key d where p: "p = (key, d)" by (cases p)
  with Cons.prems(2) have ne: "f \<noteq> key" and nin: "f \<notin> set (map fst opt)" by auto
  show ?case
  proof (cases "getProp ps key = Undefined")
    case True
    with Cons.prems p have "partial_loop opt ps (setProp parsed key none) = Inr r" by simp
    from Cons.IH [OF this nin] ne show ?thesis by (simp add: map_of_setProp)
  next
    case False
    with Cons.prems p obtain v where
      "partial_loop opt ps (setProp parsed key (some v)) = Inr r"
      by (auto split: sum.splits)
    from Cons.IH [OF this nin] ne show ?thesis by (simp add: map_of_setProp)
  qed
qed

lemma partial_loop_field:
  "partial_loop opt ps parsed = Inr r \<Longrightarrow> distinct (map fst opt) \<Longrightarrow> (f, df) \<in> set opt \<Longrightarrow>
   map_of r f =
     Some (if getProp ps f = Undefined then none
           else some (projr (decode df (getProp ps f))))
   \<and> (getProp ps f \<noteq> Undefined \<longrightarrow> \<not> isl (decode df (getProp ps f)))"
proof (induction opt arbitrary: parsed)
  case Nil
  then show ?case by simp
next
  case (Cons p opt)
  obtain key d where p: "p = (key, d)" by (cases p)
  show ?case
  proof (cases "f = key")
    case True
    with Cons.prems(2,3) p have d: "d = df" and nin: "f \<notin> set (map fst opt)"
      by (auto simp add: rev_image_eqI)
    show ?thesis
    proof (cases "getProp ps key = Undefined")
      case undef: True
      with Cons.prems p have "partial_loop opt ps (setProp parsed key none) = Inr r" by simp
      from partial_loop_other_keys [OF this nin] True undef show ?thesis
        by (simp add: map_of_setProp)
    next
      case False
      with Cons.prems(1) p d obtain v where
        v: "forceDecodeWithPath df (getProp ps key) key = Inr v"
        and l: "partial_loop opt ps (setProp parsed key (some v)) = Inr r"
        by (auto split: sum.splits)
      from v have "decode df (getProp ps key) = Inr v"
        by (auto simp add: forceDecodeWithPath_def forceDecode_def split: sum.splits thrown.splits)
      with partial_loop_other_keys [OF l nin] True False show ?thesis
        by (simp add: map_of_setProp)
    qed
  next
    case False
    with Cons.prems(2,3) p have d: "distinct (map fst opt)" and m: "(f, df) \<in> set opt"
      by auto
    show ?thesis
    proof (cases "getProp ps key = Undefined")
      case True
      with Cons.prems p have "partial_loop opt ps (setProp parsed key none) = Inr r" by simp
      from Cons.IH [OF this d m] show ?thesis .
    next
      case undef: False
      with Cons.prems(1) p obtain v where
        "partial_loop opt ps (setProp parsed key (some v)) = Inr r"
        by (auto split: sum.splits)
      from Cons.IH [OF this d m] show ?thesis .
    qed
  qed
qed

lemma partial_loop_field_failure:
  "(f, df) \<in> set opt \<Longrightarrow> getProp ps f \<noteq> Undefined \<Longrightarrow> isl (decode df (getProp ps f)) \<Longrightarrow>
   isl (partial_loop opt ps parsed)"
proof (induction opt arbitrary: parsed)
  case Nil
  then show ?case by simp
next
  case (Cons p opt)
  obtain key d where p: "p = (key, d)" by (cases p)
  show ?case
  proof (cases "(f, df) = (key, d)")
    case True
    from Cons.prems(3) obtain e where "decode df (getProp ps f) = Inl e"
      by (cases "decode df (getProp ps f)") auto
    with True Cons.prems(2) p show ?thesis
      by (simp add: forceDecodeWithPath_def forceDecode_def)
  next
    case False
    with Cons.prems(1) p have m: "(f, df) \<in> set opt" by auto
    note ih = Cons.IH [OF m Cons.prems(2,3)]
    with p show ?thesis
      by (simp split: sum.splits)
  qed
qed

lemma map_of_object_assign:
  "distinct (map fst src) \<Longrightarrow>
   map_of (fold (\<lambda>p r. setProp r (fst p) (snd p)) src tgt) = map_of tgt ++ map_of src"
proof (induction src arbitrary: tgt)
  case Nil
  then show ?case by simp
next
  case (Cons p src)
  obtain k v where p: "p = (k, v)" by (cases p)
  with Cons.prems have d: "distinct (map fst src)" and nk: "k \<notin> set (map fst src)" by auto
  from nk have none: "map_of src k = None" by (simp add: map_of_eq_None_iff)
  have ih: "map_of (fold (\<lambda>p r. setProp r (fst p) (snd p)) src (setProp tgt k v))
      = map_of (setProp tgt k v) ++ map_of src"
    by (rule Cons.IH [OF d])
  show ?case
  proof (rule ext)
    fix x
    have "map_of (fold (\<lambda>p r. setProp r (fst p) (snd p)) (p # src) tgt) x
        = (map_of (setProp tgt k v) ++ map_of src) x"
      using ih p by simp
    also have "\<dots> = (map_of tgt ++ map_of (p # src)) x"
      using none p by (auto simp add: map_of_setProp map_add_def split: option.splits)
    finally show "map_of (fold (\<lambda>p r. setProp r (fst p) (snd p)) (p # src) tgt) x
        = (map_of tgt ++ map_of (p # src)) x" .
  qed
qed

lemma decode_partial_Obj:
  "decode (partial opt) (Obj ps) =
     (case partial_loop opt ps [] of
        Inl (Thrown_DecoderError e) \<Rightarrow> Inl e
      | Inl (Thrown_Other t) \<Rightarrow> Inl (new_DecoderError ''Invalid data'' [])
      | Inr parsed \<Rightarrow> Inr (Obj parsed))"
  by (simp add: partial_def checkDictType_def split: sum.splits thrown.splits)

lemma structuredObject_optional_result:
  assumes "struct_optional struct = Some opt"
    and "decode (structuredObject struct) (Obj ps) = Inr r"
  shows "\<exists>result parsed. partial_loop opt ps [] = Inr parsed
           \<and> r = Obj (object_assign result (Obj parsed))"
  using assms
  by (auto simp add: structuredObject_def checkDefined_def forceDecode_def decode_partial_Obj
      split: sum.splits option.splits thrown.splits)

lemma structuredObject_optional_failure:
  assumes "struct_optional struct = Some opt"
    and "isl (partial_loop opt ps [])"
  shows "isl (decode (structuredObject struct) (Obj ps))"
  using assms
  by (auto simp add: structuredObject_def checkDefined_def forceDecode_def decode_partial_Obj
      split: sum.splits option.splits thrown.splits)

lemma getProp_own: "map_of ps f = Some x \<Longrightarrow> getProp ps f = x"
  by (simp add: getProp_def)

lemma getProp_eq_Undefined:
  assumes "object_prototype f = None"
  shows "getProp ps f = Undefined \<longleftrightarrow> f \<notin> fst ` set ps \<or> map_of ps f = Some Undefined"
proof (cases "map_of ps f")
  case None
  then have "f \<notin> fst ` set ps" by (simp add: map_of_eq_None_iff)
  with None assms show ?thesis by (simp add: getProp_def)
next
  case (Some v)
  then have "f \<in> fst ` set ps"
    using map_of_eq_None_iff [of ps f] by auto
  with Some show ?thesis by (simp add: getProp_def)
qed

lemma partial_loop_success:
  "\<forall>p\<in>set opt. getProp ps (fst p) = Undefined \<or> \<not> isl (decode (snd p) (getProp ps (fst p)))
   \<Longrightarrow> \<not> isl (partial_loop opt ps parsed)"
proof (induction opt arbitrary: parsed)
  case Nil
  then show ?case by simp
next
  case (Cons p opt)
  obtain key d where p: "p = (key, d)" by (cases p)
  from Cons.prems have rest:
    "\<forall>p\<in>set opt. getProp ps (fst p) = Undefined \<or> \<not> isl (decode (snd p) (getProp ps (fst p)))"
    by simp
  show ?case
  proof (cases "getProp ps key = Undefined")
    case True
    with p Cons.IH [OF rest] show ?thesis by simp
  next
    case False
    with Cons.prems p have "\<not> isl (decode d (getProp ps key))" by simp
    then obtain v where "decode d (getProp ps key) = Inr v"
      by (cases "decode d (getProp ps key)") auto
    with False p Cons.IH [OF rest] show ?thesis
      by (simp add: forceDecodeWithPath_Inr)
  qed
qed

lemma structuredObject_optional_success:
  assumes "struct_required struct = None"
    and "struct_optional struct = Some opt"
    and "\<forall>p\<in>set opt. getProp ps (fst p) = Undefined
           \<or> \<not> isl (decode (snd p) (getProp ps (fst p)))"
  shows "\<not> isl (decode (structuredObject struct) (Obj ps))"
proof -
  from partial_loop_success [OF assms(3), of "[]"] obtain parsed where
    "partial_loop opt ps [] = Inr parsed"
    by (cases "partial_loop opt ps []") auto
  with assms(1,2) show ?thesis
    by (simp add: structuredObject_def checkDefined_def forceDecode_def decode_partial_Obj)
qed

lemma structuredObject_optional_lookup:
  assumes opt: "struct_optional struct = Some opt"
    and dist: "distinct (map fst opt)"
    and mem: "(f, df) \<in> set opt"
    and ok: "decode (structuredObject struct) (Obj ps) = Inr r"
  shows "\<exists>rs. r = Obj rs
      \<and> getProp rs f = (if getProp ps f = Undefined then none
                         else some (projr (decode df (getProp ps f))))
      \<and> (getProp ps f \<noteq> Undefined \<longrightarrow> \<not> isl (decode df (getProp ps f)))"
proof -
  from structuredObject_optional_result [OF opt ok] obtain result parsed where
    loop: "partial_loop opt ps [] = Inr parsed"
    and r: "r = Obj (object_assign result (Obj parsed))"
    by blast
  from partial_loop_field [OF loop dist mem] have
    field: "map_of parsed f =
       Some (if getProp ps f = Undefined then none else some (projr (decode df (getProp ps f))))"
    and acc: "getProp ps f \<noteq> Undefined \<longrightarrow> \<not> isl (decode df (getProp ps f))"
    by simp_all
  from partial_loop_distinct [OF loop] have "distinct (map fst parsed)" by simp
  then have "map_of (object_assign result (Obj parsed)) = map_of result ++ map_of parsed"
    by (simp add: object_assign_def map_of_object_assign)
  with field have "getProp (object_assign result (Obj parsed)) f =
      (if getProp ps f = Undefined then none else some (projr (decode df (getProp ps f))))"
    by (simp add: getProp_def map_add_def)
  with r acc show ?thesis by blast
qed

lemmas structuredObject_eval =
  structuredObject_def required_def partial_def
  checkDefined_def checkDictType_def object_assign_def setProp_def hasProp_def getProp_def
  object_prototype_def prototype_methods_def
  is_array_index_def is_digit_def forceDecode_def forceDecodeWithPath_def
  new_DecoderError_def number_def primitiveDecoder_def

lemma example_struct_absent:
  "decode (structuredObject example_struct) (Obj [(''a'', Num (Fin 2))])
     = Inr (Obj [(''a'', Num (Fin 2)), (''b'', none)])"
  by (simp add: example_struct_def structuredObject_eval)

lemma example_struct_present:
  "decode (structuredObject example_struct) (Obj [(''a'', Num (Fin 2)), (''b'', Num (Fin 10))])
     = Inr (Obj [(''a'', Num (Fin 2)), (''b'', some (Num (Fin 10)))])"
  by (simp add: example_struct_def structuredObject_eval)

text \<open>
  What \<^verbatim>\<open>structuredObject\<close> does for an optional field \<open>f\<close>, with decoder \<open>df\<close>, whose
  name is not the name of a member of \<^verbatim>\<open>Object.prototype\<close>, on an input that is an
  object. If the key \<open>f\<close> is absent from the input or bound to \<^verbatim>\<open>undefined\<close>, every result
  has \<^verbatim>\<open>none\<close> at \<open>f\<close>. If \<open>f\<close> is bound to \<^verbatim>\<open>null\<close>, the field is not taken as absent:
  \<open>df\<close> is applied to \<^verbatim>\<open>null\<close>, and when it fails the whole decode fails; the same holds
  for every bound value other than \<^verbatim>\<open>undefined\<close> on which \<open>df\<close> fails. If \<open>f\<close> is bound to a
  value on which \<open>df\<close> succeeds with \<open>v\<close>, every result has \<^verbatim>\<open>some(v)\<close> at \<open>f\<close>.
\<close>

lemma structuredObject_optional_field_own:
  assumes opt: "struct_optional struct = Some opt"
    and dist: "distinct (map fst opt)"
    and mem: "(f, df) \<in> set opt"
    and proto: "object_prototype f = None"
  shows
    "((f \<notin> fst ` set ps \<or> map_of ps f = Some Undefined)
        \<and> decode (structuredObject struct) (Obj ps) = Inr r
      \<longrightarrow> (\<exists>rs. r = Obj rs \<and> getProp rs f = none))
     \<and> (map_of ps f = Some Null \<and> isl (decode df Null)
      \<longrightarrow> isl (decode (structuredObject struct) (Obj ps)))
     \<and> (map_of ps f = Some x \<and> x \<noteq> Undefined \<and> isl (decode df x)
      \<longrightarrow> isl (decode (structuredObject struct) (Obj ps)))
     \<and> (map_of ps f = Some x \<and> x \<noteq> Undefined \<and> decode df x = Inr v
        \<and> decode (structuredObject struct) (Obj ps) = Inr r
      \<longrightarrow> (\<exists>rs. r = Obj rs \<and> getProp rs f = some v))"
proof (intro conjI impI)
  assume a: "(f \<notin> fst ` set ps \<or> map_of ps f = Some Undefined)
        \<and> decode (structuredObject struct) (Obj ps) = Inr r"
  then have u: "getProp ps f = Undefined" by (simp add: getProp_eq_Undefined [OF proto])
  from a structuredObject_optional_lookup [OF opt dist mem, of ps r] u
  show "\<exists>rs. r = Obj rs \<and> getProp rs f = none" by auto
next
  assume a: "map_of ps f = Some Null \<and> isl (decode df Null)"
  then have "getProp ps f \<noteq> Undefined" "isl (decode df (getProp ps f))"
    by (simp_all add: getProp_own)
  from partial_loop_field_failure [OF mem this]
  show "isl (decode (structuredObject struct) (Obj ps))"
    by (rule structuredObject_optional_failure [OF opt])
next
  assume a: "map_of ps f = Some x \<and> x \<noteq> Undefined \<and> isl (decode df x)"
  then have "getProp ps f \<noteq> Undefined" "isl (decode df (getProp ps f))"
    by (simp_all add: getProp_own)
  from partial_loop_field_failure [OF mem this]
  show "isl (decode (structuredObject struct) (Obj ps))"
    by (rule structuredObject_optional_failure [OF opt])
next
  assume a: "map_of ps f = Some x \<and> x \<noteq> Undefined \<and> decode df x = Inr v
        \<and> decode (structuredObject struct) (Obj ps) = Inr r"
  then have g: "getProp ps f = x" by (simp add: getProp_own)
  from a structuredObject_optional_lookup [OF opt dist mem, of ps r] g
  show "\<exists>rs. r = Obj rs \<and> getProp rs f = some v" by auto
qed

lemma structuredObject_optional_field_own_example:
  "(\<exists>rs. decode (structuredObject example_struct) (Obj [(''a'', Num (Fin 2))]) = Inr (Obj rs)
        \<and> getProp rs ''b'' = none)
   \<and> isl (decode (structuredObject example_struct) (Obj [(''a'', Num (Fin 2)), (''b'', Null)]))
   \<and> (\<exists>rs. decode (structuredObject example_struct)
              (Obj [(''a'', Num (Fin 2)), (''b'', Num (Fin 10))]) = Inr (Obj rs)
        \<and> getProp rs ''b'' = some (Num (Fin 10)))"
proof -
  have opt: "struct_optional example_struct = Some [(''b'', number)]"
    by (simp add: example_struct_def)
  have dist: "distinct (map fst [(''b'', number)])" by simp
  have mem: "(''b'', number) \<in> set [(''b'', number)]" by simp
  have proto: "object_prototype ''b'' = None"
    by (simp add: object_prototype_def prototype_methods_def)
  note field = structuredObject_optional_field_own [OF opt dist mem proto]
  have n: "isl (decode number Null)"
    by (simp add: number_def primitiveDecoder_def checkDefined_def)
  have t: "decode number (Num (Fin 10)) = Inr (Num (Fin 10))"
    by (simp add: number_def primitiveDecoder_def checkDefined_def)
  have a: "\<exists>rs. decode (structuredObject example_struct) (Obj [(''a'', Num (Fin 2))]) = Inr (Obj rs)
        \<and> getProp rs ''b'' = none"
    using field [where ps = "[(''a'', Num (Fin 2))]"
        and r = "Obj [(''a'', Num (Fin 2)), (''b'', none)]"]
      example_struct_absent
    by simp
  have b: "isl (decode (structuredObject example_struct) (Obj [(''a'', Num (Fin 2)), (''b'', Null)]))"
    using field [where ps = "[(''a'', Num (Fin 2)), (''b'', Null)]"] n by simp
  have c: "\<exists>rs. decode (structuredObject example_struct)
              (Obj [(''a'', Num (Fin 2)), (''b'', Num (Fin 10))]) = Inr (Obj rs)
        \<and> getProp rs ''b'' = some (Num (Fin 10))"
    using field [where ps = "[(''a'', Num (Fin 2)), (''b'', Num (Fin 10))]"
        and x = "Num (Fin 10)" and v = "Num (Fin 10)"
        and r = "Obj [(''a'', Num (Fin 2)), (''b'', some (Num (Fin 10)))]"]
      example_struct_present t
    by simp
  from a b c show ?thesis by blast
qed

text \<open>
  Claim C6 says that an optional field whose key is absent from the input is marked
  absent. The code tests \<^verbatim>\<open>data[key] === undefined\<close>, and \<^verbatim>\<open>data[key]\<close> also reads the
  members that the input inherits from \<^verbatim>\<open>Object.prototype\<close>. On the empty object, the
  optional field \<^verbatim>\<open>toString\<close> with the decoder \<^verbatim>\<open>string\<close> is not marked absent: the
  decoder is applied to the inherited function and the whole decode fails. The optional
  field \<^verbatim>\<open>constructor\<close> with the decoder \<^verbatim>\<open>unknown\<close> is marked present, wrapping the
  function \<^verbatim>\<open>Object\<close>. An optional field of any other name, as \<^verbatim>\<open>preferredName\<close>, is
  marked absent on the same input.
\<close>

theorem structuredObject_inherited_member_not_absent:
  "decode (structuredObject
       \<lparr>struct_required = None, struct_optional = Some [(''toString'', string)]\<rparr>) (Obj [])
     = Inl \<lparr>message = ''toString: This is not a string: undefined'', path = [''toString'']\<rparr>
   \<and> decode (structuredObject
       \<lparr>struct_required = None, struct_optional = Some [(''constructor'', unknown)]\<rparr>) (Obj [])
     = Inr (Obj [(''constructor'', some (Builtin ''Object''))])
   \<and> decode (structuredObject
       \<lparr>struct_required = None, struct_optional = Some [(''preferredName'', string)]\<rparr>) (Obj [])
     = Inr (Obj [(''preferredName'', none)])"
  by (simp add: structuredObject_eval string_def unknown_def show_def)

section \<open>Path accumulation through a recursive decoder\<close>

lemmas object_eval =
  object_def object_buckets_def structuredObject_def required_def partial_def
  checkDefined_def checkDictType_def object_assign_def setProp_def hasProp_def getProp_def
  object_prototype_def prototype_methods_def
  is_array_index_def is_digit_def forceDecode_def forceDecodeWithPath_def
  new_DecoderError_def

lemma category_name_object:
  "decode (categoryDecoder (Suc n)) (Obj [(''name'', Num (Fin 1))]) =
     Inl \<lparr>message = ''name: This is not a string: 1'', path = [''name'']\<rparr>"
  by (simp add: object_eval string_def primitiveDecoder_def show_def int_to_string_def digits.simps)

lemma category_missing_name:
  "decode (categoryDecoder (Suc n)) spec_categories =
     Inl \<lparr>message = ''Object missing required property '' @ [CHR 0x27] @ ''name'' @ [CHR 0x27],
          path = []\<rparr>"
  by (simp add: spec_categories_def object_eval)

lemma category_level2:
  "decode (categoryDecoder (Suc (Suc n)))
     (Obj [(''name'', Str ''Computers''),
           (''subcategories'', Arr [Obj [(''name'', Num (Fin 1))]])]) =
     Inl \<lparr>message = ''subcategories.0.name: This is not a string: 1'',
          path = [''subcategories'', ''0'', ''name'']\<rparr>"
proof -
  have unroll: "categoryDecoder (Suc (Suc n)) =
     object [(''name'', Plain string),
             (''subcategories'', Plain (array (recursive (\<lambda>u. categoryDecoder (Suc n)))))]"
    by simp
  show ?thesis
    unfolding unroll
    by (simp add: object_eval string_def primitiveDecoder_def array_def checkArrayType_def
        recursive_def digits.simps category_name_object del: categoryDecoder.simps(2))
qed

lemma category_level3:
  "decode (categoryDecoder (Suc (Suc (Suc n)))) named_categories =
     Inl \<lparr>message = ''subcategories.0.subcategories.0.name: This is not a string: 1'',
          path = [''subcategories'', ''0'', ''subcategories'', ''0'', ''name'']\<rparr>"
proof -
  have unroll: "categoryDecoder (Suc (Suc (Suc n))) =
     object [(''name'', Plain string),
             (''subcategories'', Plain (array (recursive (\<lambda>u. categoryDecoder (Suc (Suc n))))))]"
    by simp
  show ?thesis
    unfolding unroll named_categories_def
    by (simp add: object_eval string_def primitiveDecoder_def array_def checkArrayType_def
        recursive_def digits.simps category_level2 del: categoryDecoder.simps(2))
qed

text \<open>
  Claim C7, as stated, fails: the input of the claim has no \<^verbatim>\<open>name\<close> at its root, and
  \<^verbatim>\<open>name\<close> is the first required field, so the decode fails there, with the empty path
  and the message of a missing required property.
\<close>

theorem spec_categories_fails_at_the_root:
  "decode (categoryDecoder 3) spec_categories =
     Inl \<lparr>message = ''Object missing required property '' @ [CHR 0x27] @ ''name'' @ [CHR 0x27],
          path = []\<rparr>"
  using category_missing_name [of 2] by (simp add: numeral_3_eq_3)

text \<open>
  Claim C7, amended. When the two outer levels of the input carry a \<^verbatim>\<open>name\<close> that is a
  string, decoding it against the recursive category decoder fails with the path
  \<^verbatim>\<open>subcategories, 0, subcategories, 0, name\<close> and the message
  \<^verbatim>\<open>subcategories.0.subcategories.0.name: This is not a string: 1\<close>, as soon as the
  self-reference can be resolved twice. The input as the claim writes it fails at the root,
  with the empty path and the message \<^verbatim>\<open>Object missing required property 'name'\<close>.
\<close>

theorem category_failure_path:
  "decode (categoryDecoder (Suc (Suc (Suc n)))) named_categories =
     Inl \<lparr>message = ''subcategories.0.subcategories.0.name: This is not a string: 1'',
          path = [''subcategories'', ''0'', ''subcategories'', ''0'', ''name'']\<rparr>
   \<and> decode (categoryDecoder (Suc n)) spec_categories =
     Inl \<lparr>message = ''Object missing required property '' @ [CHR 0x27] @ ''name'' @ [CHR 0x27],
          path = []\<rparr>"
  by (simp only: category_level3 category_missing_name)

theorem category_failure_path_witness:
  "path (projl (decode (categoryDecoder 3) named_categories))
     = [''subcategories'', ''0'', ''subcategories'', ''0'', ''name'']
   \<and> message (projl (decode (categoryDecoder 3) named_categories))
     = ''subcategories.0.subcategories.0.name: This is not a string: 1''"
  using category_failure_path [of 0] by (simp add: numeral_3_eq_3)

section \<open>Intersection: merging values that are not records\<close>

lemma object_a_null:
  "decode (object [(''a'', Plain null_decoder)]) (Obj [(''a'', Null)]) = Inr (Obj [(''a'', Null)])"
  by (simp add: object_eval null_decoder_def)

lemma object_a_array:
  "decode (object [(''a'', Plain (array number))]) (Obj [(''a'', Arr [Num (Fin 1)])])
     = Inr (Obj [(''a'', Arr [Num (Fin 1)])])"
  by (simp add: object_eval array_def checkArrayType_def number_def primitiveDecoder_def)

text \<open>
  Claim C4 says that \<^verbatim>\<open>allOf\<close> succeeds exactly when every sub-decoder succeeds, and
  that at a key present on both sides the later value overwrites the earlier one unless
  both are records. The code tests for a record with \<^verbatim>\<open>typeof\<close>, which also answers
  \<^verbatim>\<open>'object'\<close> for \<^verbatim>\<open>null\<close> and for arrays. On the input \<^verbatim>\<open>{a: null}\<close> the decoder
  \<^verbatim>\<open>object({a: null})\<close> succeeds, and \<^verbatim>\<open>allOf\<close> of two copies of it fails with
  \<^verbatim>\<open>Invalid data\<close>, because the merge of \<^verbatim>\<open>null\<close> with \<^verbatim>\<open>null\<close> throws a
  \<^verbatim>\<open>TypeError\<close>. On the input \<^verbatim>\<open>{a: [1]}\<close> the decoder \<^verbatim>\<open>object({a: array(number)})\<close>
  succeeds with \<^verbatim>\<open>{a: [1]}\<close>, and \<^verbatim>\<open>allOf\<close> of two copies of it returns
  \<^verbatim>\<open>{a: {"0": 1}}\<close>: the later array does not overwrite the earlier one.
\<close>

theorem allOf_fails_on_merging_null:
  "decode (object [(''a'', Plain null_decoder)]) (Obj [(''a'', Null)]) = Inr (Obj [(''a'', Null)])
   \<and> decode (allOf [object [(''a'', Plain null_decoder)], object [(''a'', Plain null_decoder)]])
         (Obj [(''a'', Null)])
       = Inl \<lparr>message = ''Invalid data'', path = []\<rparr>
   \<and> decode (object [(''a'', Plain (array number))]) (Obj [(''a'', Arr [Num (Fin 1)])])
       = Inr (Obj [(''a'', Arr [Num (Fin 1)])])
   \<and> decode (allOf [object [(''a'', Plain (array number))], object [(''a'', Plain (array number))]])
         (Obj [(''a'', Arr [Num (Fin 1)])])
       = Inr (Obj [(''a'', Obj [(''0'', Num (Fin 1))])])"
  by (simp add: allOf_def forceDecode_def object_a_null object_a_array entries_def
      setProp_def hasProp_def getProp_def key_in_def object_prototype_def prototype_methods_def
      is_array_index_def is_digit_def new_DecoderError_def
      digits.simps index_value_def digit_value_def)

end
